theory Spec2Isabelle
  imports Main
begin

section \<open>JavaScript values\<close>

text \<open>
  The handlers of \<^verbatim>\<open>routes/Auth.js\<close> and \<^verbatim>\<open>authMiddleware.js\<close> pass around
  strings, \<^verbatim>\<open>undefined\<close>, numbers (the token's timestamps) and plain objects. A plain
  object is an association list of its properties, in insertion order. Strings are lists
  of 8-bit characters.
\<close>

datatype jsval = Undefined | Str string | Num nat | Obj "(string \<times> jsval) list"

type_synonym props = "(string \<times> jsval) list"

text \<open>Property access \<^verbatim>\<open>o.k\<close>: a property that is not there reads as \<^verbatim>\<open>undefined\<close>.\<close>

definition field :: "props \<Rightarrow> string \<Rightarrow> jsval" where
  "field obj k = (case map_of obj k of None \<Rightarrow> Undefined | Some v \<Rightarrow> v)"

text \<open>The operand of \<^verbatim>\<open>!\<close>: \<^verbatim>\<open>undefined\<close>, the empty string and 0 are falsy, an object is not.\<close>

fun falsy :: "jsval \<Rightarrow> bool" where
  "falsy Undefined = True"
| "falsy (Str s) = (s = [])"
| "falsy (Num n) = (n = 0)"
| "falsy (Obj kvs) = False"

text \<open>
  \<^verbatim>\<open>res.json(v)\<close> sends \<^verbatim>\<open>JSON.stringify(v)\<close>, which leaves out every property whose
  value is \<^verbatim>\<open>undefined\<close>. \<open>to_json\<close> is the value a client parses back.
\<close>

fun to_json :: "jsval \<Rightarrow> jsval" and to_json_props :: "props \<Rightarrow> props" where
  "to_json (Obj kvs) = Obj (to_json_props kvs)"
| "to_json Undefined = Undefined"
| "to_json (Str s) = Str s"
| "to_json (Num n) = Num n"
| "to_json_props [] = []"
| "to_json_props ((k, v) # kvs) =
     (if v = Undefined then to_json_props kvs else (k, to_json v) # to_json_props kvs)"

text \<open>A field of a request body that is a string when it is present.\<close>

text \<open>Property access on any value; only an object has properties here.\<close>

fun get_prop :: "jsval \<Rightarrow> string \<Rightarrow> jsval" where
  "get_prop (Obj kvs) k = field kvs k"
| "get_prop v k = Undefined"

text \<open>The property names of an object, in order.\<close>

fun keys :: "jsval \<Rightarrow> string list" where
  "keys (Obj kvs) = map fst kvs"
| "keys v = []"

definition opt_js :: "string option \<Rightarrow> jsval" where
  "opt_js v = (case v of None \<Rightarrow> Undefined | Some s \<Rightarrow> Str s)"

text \<open>
  \<^verbatim>\<open>s.split(c)\<close> for a one-character separator: the pieces between the occurrences of
  \<open>c\<close>, never an empty array. \<^verbatim>\<open>a[i]\<close> past the end of an array is \<^verbatim>\<open>undefined\<close>.
\<close>

fun split :: "char \<Rightarrow> string \<Rightarrow> string list" where
  "split c [] = [[]]"
| "split c (x # xs) =
     (if x = c then [] # split c xs
      else (case split c xs of [] \<Rightarrow> [[x]] | y # ys \<Rightarrow> (x # y) # ys))"

definition index :: "string list \<Rightarrow> nat \<Rightarrow> jsval" where
  "index a i = (if i < length a then Str (a ! i) else Undefined)"

text \<open>A response: the status code and the body, for the auth routes a JSON value.\<close>

record 'b response =
  status :: nat
  body :: 'b

text \<open>\<^verbatim>\<open>res.status(c).json(v)\<close>.\<close>

definition send :: "nat \<Rightarrow> jsval \<Rightarrow> jsval response" where
  "send c v = \<lparr>status = c, body = to_json v\<rparr>"

section \<open>Regular expressions\<close>

text \<open>
  The pattern of the \<^verbatim>\<open>email\<close> path is a regular expression literal. \<open>Dot\<close> is
  \<^verbatim>\<open>.\<close>, which matches any character but a line terminator; \<open>Any\<close> matches every
  character and is only used for the unanchored search of \<^verbatim>\<open>RegExp.prototype.test\<close>.
\<close>

datatype regex =
  Nul | Eps | Dot | Any | Lit char | Cat regex regex | Alt regex regex | Star regex

definition Plus :: "regex \<Rightarrow> regex" where
  "Plus r = Cat r (Star r)"

definition line_terminator :: "char \<Rightarrow> bool" where
  "line_terminator c = (c = CHR 0x0A \<or> c = CHR 0x0D)"

fun nullable :: "regex \<Rightarrow> bool" where
  "nullable Nul = False"
| "nullable Eps = True"
| "nullable Dot = False"
| "nullable Any = False"
| "nullable (Lit c) = False"
| "nullable (Cat r s) = (nullable r \<and> nullable s)"
| "nullable (Alt r s) = (nullable r \<or> nullable s)"
| "nullable (Star r) = True"

fun deriv :: "char \<Rightarrow> regex \<Rightarrow> regex" where
  "deriv c Nul = Nul"
| "deriv c Eps = Nul"
| "deriv c Dot = (if line_terminator c then Nul else Eps)"
| "deriv c Any = Eps"
| "deriv c (Lit d) = (if c = d then Eps else Nul)"
| "deriv c (Cat r s) =
     (if nullable r then Alt (Cat (deriv c r) s) (deriv c s) else Cat (deriv c r) s)"
| "deriv c (Alt r s) = Alt (deriv c r) (deriv c s)"
| "deriv c (Star r) = Cat (deriv c r) (Star r)"

fun matches :: "regex \<Rightarrow> string \<Rightarrow> bool" where
  "matches r [] = nullable r"
| "matches r (c # cs) = matches (deriv c r) cs"

text \<open>\<^verbatim>\<open>re.test(s)\<close> without anchors: some substring of \<open>s\<close> matches.\<close>

definition test :: "regex \<Rightarrow> string \<Rightarrow> bool" where
  "test r s = matches (Cat (Star Any) (Cat r (Star Any))) s"

text \<open>
  What a pattern means, to reason about the matcher: the set of strings it denotes.
\<close>

inductive_set star :: "string set \<Rightarrow> string set" for A :: "string set" where
  star_Nil: "[] \<in> star A"
| star_Step: "u \<in> A \<Longrightarrow> v \<in> star A \<Longrightarrow> u @ v \<in> star A"

fun lang :: "regex \<Rightarrow> string set" where
  "lang Nul = {}"
| "lang Eps = {[]}"
| "lang Dot = {[c] | c. \<not> line_terminator c}"
| "lang Any = {[c] | c. True}"
| "lang (Lit d) = {[d]}"
| "lang (Cat r s) = {u @ v | u v. u \<in> lang r \<and> v \<in> lang s}"
| "lang (Alt r s) = lang r \<union> lang s"
| "lang (Star r) = star (lang r)"

section \<open>The document store\<close>

text \<open>
  \<^verbatim>\<open>models/User.js\<close> declares the schema of the \<^verbatim>\<open>User\<close> collection: four string
  paths, each required with its message, \<^verbatim>\<open>email\<close> unique and matched against the
  pattern \<^verbatim>\<open>/.+\@.+\..+/\<close>. The schema has no path \<^verbatim>\<open>profilePicture\<close>.
\<close>

record schema_path =
  required :: "string option"
  unique :: bool
  match :: "(regex \<times> string) option"

type_synonym schema = "(string \<times> schema_path) list"

definition email_re :: regex where
  "email_re =
     Cat (Plus Dot) (Cat (Lit CHR ''@'') (Cat (Plus Dot) (Cat (Lit CHR ''.'') (Plus Dot))))"

definition UserSchema :: schema where
  "UserSchema =
     [(''name'', \<lparr>required = Some ''Name is required'', unique = False, match = None\<rparr>),
      (''email'', \<lparr>required = Some ''Email is required'', unique = True,
                  match = Some (email_re, ''Please fill a valid email address'')\<rparr>),
      (''phone'', \<lparr>required = Some ''Phone is required'', unique = False, match = None\<rparr>),
      (''password'', \<lparr>required = Some ''Password is required'', unique = False,
                     match = None\<rparr>)]"

text \<open>
  What one request finds outside the handler: the clock (in seconds), the identifier the
  driver generates for a new document, the randomness the hasher draws its salt from,
  \<^verbatim>\<open>process.env.JWT_SECRET\<close>, and whether the store rejects a query or a write with an
  error of its own (a lost connection, say).
\<close>

record world =
  clock :: nat
  new_oid :: string
  salt :: string
  jwt_secret :: "string option"
  find_error :: "string option"
  save_error :: "string option"

text \<open>
  \<^verbatim>\<open>new User(obj)\<close>: a document with a fresh \<^verbatim>\<open>_id\<close> and the properties of \<open>obj\<close>
  that are paths of the schema. Mongoose schemas are strict unless declared otherwise
  (this one is not), so a property the schema does not know is dropped and reads as
  \<^verbatim>\<open>undefined\<close> on the document.
\<close>

definition new_Model :: "schema \<Rightarrow> string \<Rightarrow> props \<Rightarrow> props" where
  "new_Model sch oid obj =
     (''_id'', Str oid) # filter (\<lambda>(k, v). k \<in> set (map fst sch) \<and> v \<noteq> Undefined) obj"

text \<open>
  Validation before a write. A required string path fails when it is missing or empty;
  a \<^verbatim>\<open>match\<close> validator passes on a missing or empty value and otherwise tests the
  pattern.
\<close>

definition path_errors :: "props \<Rightarrow> string \<times> schema_path \<Rightarrow> (string \<times> string) list" where
  "path_errors d = (\<lambda>(k, p).
     (case required p of
        None \<Rightarrow> []
      | Some msg \<Rightarrow> if field d k = Undefined \<or> field d k = Str [] then [(k, msg)] else [])
     @
     (case match p of
        None \<Rightarrow> []
      | Some (re, msg) \<Rightarrow>
          (case field d k of
             Str s \<Rightarrow> if s \<noteq> [] \<and> \<not> test re s then [(k, msg)] else []
           | _ \<Rightarrow> [])))"

definition validate :: "schema \<Rightarrow> props \<Rightarrow> (string \<times> string) list" where
  "validate sch d = concat (map (path_errors d) sch)"

fun join :: "string \<Rightarrow> string list \<Rightarrow> string" where
  "join sep [] = []"
| "join sep [x] = x"
| "join sep (x # y # ys) = x @ sep @ join sep (y # ys)"

definition validation_message :: "string \<Rightarrow> (string \<times> string) list \<Rightarrow> string" where
  "validation_message model errs =
     model @ '' validation failed: '' @ join '', '' (map (\<lambda>(k, m). k @ '': '' @ m) errs)"

text \<open>The keys of the collection's unique indexes: \<^verbatim>\<open>_id\<close> and the unique paths.\<close>

definition unique_keys :: "schema \<Rightarrow> string list" where
  "unique_keys sch = ''_id'' # map fst (filter (\<lambda>(k, p). unique p) sch)"

definition duplicate_key :: "schema \<Rightarrow> props list \<Rightarrow> props \<Rightarrow> bool" where
  "duplicate_key sch db d =
     (\<exists>e \<in> set db. \<exists>k \<in> set (unique_keys sch). field d k \<noteq> Undefined \<and> field e k = field d k)"

text \<open>
  An awaited call either returns or rejects with an error, of which the handlers only
  read the message: \<open>Inl\<close> is the rejection.
\<close>

definition await :: "string + 'a \<Rightarrow> ('a \<Rightarrow> string + 'b) \<Rightarrow> string + 'b" where
  "await r k = (case r of Inl e \<Rightarrow> Inl e | Inr v \<Rightarrow> k v)"

text \<open>\<^verbatim>\<open>User.findOne({ email })\<close>: the first document whose \<^verbatim>\<open>email\<close> is the given value.\<close>

definition findOne :: "world \<Rightarrow> props list \<Rightarrow> jsval \<Rightarrow> string + props option" where
  "findOne w db email =
     (case find_error w of
        Some e \<Rightarrow> Inl e
      | None \<Rightarrow> Inr (find (\<lambda>d. field d ''email'' = email) db))"

text \<open>
  \<^verbatim>\<open>newUser.save()\<close>: the document is validated, then inserted; the insert is rejected by
  the store's own failure or by a unique index (with the store's duplicate-key message,
  of which the model keeps the beginning).
\<close>

definition save :: "world \<Rightarrow> props list \<Rightarrow> props \<Rightarrow> string + props list" where
  "save w db d =
     (case validate UserSchema d of
        e # es \<Rightarrow> Inl (validation_message ''User'' (e # es))
      | [] \<Rightarrow>
          (case save_error w of
             Some e \<Rightarrow> Inl e
           | None \<Rightarrow>
               if duplicate_key UserSchema db d then Inl ''E11000 duplicate key error''
               else Inr (db @ [d])))"

section \<open>The libraries\<close>

text \<open>
  \<^verbatim>\<open>bcryptjs\<close> and \<^verbatim>\<open>jsonwebtoken\<close> are dependencies, not code of the repository. The
  hasher is a parameter: \<open>bcrypt_hash v rounds s\<close> is what \<^verbatim>\<open>bcrypt.hash(v, rounds)\<close>
  resolves to when it draws the salt from \<open>s\<close>, \<open>bcrypt_compare v h\<close> what
  \<^verbatim>\<open>bcrypt.compare(v, h)\<close> resolves to. Of a token the model keeps what
  \<^verbatim>\<open>jsonwebtoken\<close> documents: a token is the serialisation of a payload object and a
  signature, the signature is a keyed digest of the payload, and both the serialisation
  (\<open>jwt_encode\<close>, \<open>jwt_decode\<close>) and the digest (\<open>hmac\<close>) are parameters.
\<close>

record libs =
  bcrypt_hash :: "jsval \<Rightarrow> nat \<Rightarrow> string \<Rightarrow> string + string"
  bcrypt_compare :: "jsval \<Rightarrow> jsval \<Rightarrow> string + bool"
  jwt_encode :: "props \<Rightarrow> string \<Rightarrow> string"
  jwt_decode :: "string \<Rightarrow> (props \<times> string) option"
  hmac :: "string \<Rightarrow> props \<Rightarrow> string"

text \<open>
  \<^verbatim>\<open>jwt.sign(payload, secret, { expiresIn: '1h' })\<close>: throws without a secret; otherwise
  adds \<^verbatim>\<open>iat\<close> (now) and \<^verbatim>\<open>exp\<close> (an hour later) to the payload and signs it.
\<close>

definition jwt_sign :: "libs \<Rightarrow> props \<Rightarrow> string option \<Rightarrow> nat \<Rightarrow> string + string" where
  "jwt_sign L payload secret now =
     (case secret of
        None \<Rightarrow> Inl ''secretOrPrivateKey must have a value''
      | Some key \<Rightarrow>
          if key = [] then Inl ''secretOrPrivateKey must have a value''
          else (let p = payload @ [(''iat'', Num now), (''exp'', Num (now + 3600))]
                in Inr (jwt_encode L p (hmac L key p))))"

text \<open>
  The two checks \<^verbatim>\<open>jwt.verify\<close> makes on the payload of a token whose signature it
  has accepted, under the options the guard calls it with (none): a not-before time
  \<^verbatim>\<open>nbf\<close>, when the payload has one, must be a number and must not lie ahead of the
  clock; an expiry \<^verbatim>\<open>exp\<close>, when the payload has one, must be a number and must lie
  ahead of the clock. Each gives the message of the error it throws.
\<close>

definition check_nbf :: "props \<Rightarrow> nat \<Rightarrow> string option" where
  "check_nbf payload now =
     (case field payload ''nbf'' of
        Undefined \<Rightarrow> None
      | Num b \<Rightarrow> if now < b then Some ''jwt not active'' else None
      | _ \<Rightarrow> Some ''invalid nbf value'')"

definition check_exp :: "props \<Rightarrow> nat \<Rightarrow> string option" where
  "check_exp payload now =
     (case field payload ''exp'' of
        Undefined \<Rightarrow> None
      | Num e \<Rightarrow> if e \<le> now then Some ''jwt expired'' else None
      | _ \<Rightarrow> Some ''invalid exp value'')"

text \<open>
  \<^verbatim>\<open>jwt.verify(token, secret)\<close>: throws on a token that does not parse, on a missing
  secret, on a signature that is not the digest of the payload under the secret, then
  on the not-before time and on the expiry; otherwise returns the payload.
\<close>

definition jwt_verify :: "libs \<Rightarrow> string \<Rightarrow> string option \<Rightarrow> nat \<Rightarrow> string + props" where
  "jwt_verify L token secret now =
     (case jwt_decode L token of
        None \<Rightarrow> Inl ''jwt malformed''
      | Some (payload, sg) \<Rightarrow>
          (case secret of
             None \<Rightarrow> Inl ''secret or public key must be provided''
           | Some key \<Rightarrow>
               if key = [] then Inl ''secret or public key must be provided''
               else if sg \<noteq> hmac L key payload then Inl ''invalid signature''
               else (case check_nbf payload now of
                       Some e \<Rightarrow> Inl e
                     | None \<Rightarrow>
                         (case check_exp payload now of
                            Some e \<Rightarrow> Inl e
                          | None \<Rightarrow> Inr payload))))"

section \<open>Register, login and the guard\<close>

text \<open>
  The fields the handlers read from a request: each is a string or missing.
  \<open>rq_file\<close> is \<^verbatim>\<open>req.file.path\<close> when the upload middleware stored a picture.
\<close>

record register_req =
  rq_name :: "string option"
  rq_email :: "string option"
  rq_phone :: "string option"
  rq_password :: "string option"
  rq_file :: "string option"

record login_req =
  lq_email :: "string option"
  lq_password :: "string option"

definition message :: "string \<Rightarrow> jsval" where
  "message m = Obj [(''message'', Str m)]"

text \<open>
  \<^verbatim>\<open>u.k\<close> on a document of the \<^verbatim>\<open>User\<close> model, new or found: the document has a
  property for \<^verbatim>\<open>_id\<close> and for each path of the schema and for nothing else, whatever
  the stored record holds.
\<close>

definition doc_get :: "props \<Rightarrow> string \<Rightarrow> jsval" where
  "doc_get u k =
     (if k = ''_id'' \<or> k \<in> set (map fst UserSchema) then field u k else Undefined)"

text \<open>
  The public view both handlers answer with, read off the document.
\<close>

definition public_view :: "props \<Rightarrow> jsval" where
  "public_view u =
     Obj [(''id'', doc_get u ''_id''),
          (''name'', doc_get u ''name''),
          (''email'', doc_get u ''email''),
          (''phone'', doc_get u ''phone''),
          (''profilePicture'', doc_get u ''profilePicture'')]"

text \<open>
  \<^verbatim>\<open>router.post('/register')\<close>: the body of the \<^verbatim>\<open>try\<close> block, then the handler with its
  \<^verbatim>\<open>catch\<close>. The result is the response and the store after the request.
\<close>

definition register_try ::
  "libs \<Rightarrow> world \<Rightarrow> props list \<Rightarrow> register_req \<Rightarrow> string + (jsval response \<times> props list)" where
  "register_try L w db req =
     (let name = opt_js (rq_name req); email = opt_js (rq_email req);
          phone = opt_js (rq_phone req); password = opt_js (rq_password req)
      in if falsy name \<or> falsy email \<or> falsy phone \<or> falsy password
         then Inr (send 400 (message ''All fields are required''), db)
         else await (findOne w db email) (\<lambda>existingUser.
           if existingUser \<noteq> None
           then Inr (send 400 (message ''User already exists''), db)
           else await (bcrypt_hash L password 10 (salt w)) (\<lambda>hashedPassword.
             let newUser = new_Model UserSchema (new_oid w)
                   [(''name'', name),
                    (''email'', email),
                    (''phone'', phone),
                    (''password'', Str hashedPassword),
                    (''profilePicture'',
                       (case rq_file req of Some path \<Rightarrow> Str path | None \<Rightarrow> Str []))]
             in await (save w db newUser) (\<lambda>db'.
                  Inr (send 201
                         (Obj [(''message'', Str ''User registered successfully''),
                               (''user'', public_view newUser)]),
                       db')))))"

definition register ::
  "libs \<Rightarrow> world \<Rightarrow> props list \<Rightarrow> register_req \<Rightarrow> jsval response \<times> props list" where
  "register L w db req =
     (case register_try L w db req of
        Inr r \<Rightarrow> r
      | Inl e \<Rightarrow> (send 500 (Obj [(''message'', Str ''Server error''), (''error'', Str e)]), db))"

text \<open>\<^verbatim>\<open>router.post('/login')\<close>; the store is only read.\<close>

definition login_try :: "libs \<Rightarrow> world \<Rightarrow> props list \<Rightarrow> login_req \<Rightarrow> string + jsval response" where
  "login_try L w db req =
     (let email = opt_js (lq_email req); password = opt_js (lq_password req)
      in await (findOne w db email) (\<lambda>found.
           case found of
             None \<Rightarrow> Inr (send 400 (message ''Invalid email or password''))
           | Some user \<Rightarrow>
               await (bcrypt_compare L password (field user ''password'')) (\<lambda>isMatch.
                 if \<not> isMatch
                 then Inr (send 400 (message ''Invalid email or password''))
                 else await (jwt_sign L [(''id'', field user ''_id'')] (jwt_secret w) (clock w))
                   (\<lambda>token.
                      Inr (send 200 (Obj [(''token'', Str token),
                                           (''user'', public_view user)]))))))"

definition login :: "libs \<Rightarrow> world \<Rightarrow> props list \<Rightarrow> login_req \<Rightarrow> jsval response" where
  "login L w db req =
     (case login_try L w db req of
        Inr r \<Rightarrow> r
      | Inl e \<Rightarrow> send 500 (message e))"

text \<open>
  \<^verbatim>\<open>authMiddleware\<close>: the argument is \<^verbatim>\<open>req.header('Authorization')\<close>. The middleware
  either answers itself or sets \<^verbatim>\<open>req.user\<close> and calls \<^verbatim>\<open>next()\<close>. It takes no store.
\<close>

datatype guard_result = Denied "jsval response" | Next props

definition authMiddleware :: "libs \<Rightarrow> world \<Rightarrow> string option \<Rightarrow> guard_result" where
  "authMiddleware L w header =
     (let token = (case header of None \<Rightarrow> Undefined | Some h \<Rightarrow> index (split CHR '' '' h) 1)
      in if falsy token
         then Denied (send 401 (message ''Authorization denied. No token provided.''))
         else (case token of
                 Str t \<Rightarrow>
                   (case jwt_verify L t (jwt_secret w) (clock w) of
                      Inr decoded \<Rightarrow> Next decoded
                    | Inl e \<Rightarrow> Denied (send 401 (message ''Token is not valid'')))
               | _ \<Rightarrow> Denied (send 401 (message ''Token is not valid''))))"

text \<open>\<^verbatim>\<open>router.get('/me', authMiddleware, ...)\<close>: the handler answers with \<^verbatim>\<open>req.user\<close>.\<close>

definition me :: "libs \<Rightarrow> world \<Rightarrow> string option \<Rightarrow> jsval response" where
  "me L w header =
     (case authMiddleware L w header of
        Denied r \<Rightarrow> r
      | Next user \<Rightarrow> send 200 (Obj user))"

text \<open>
  The reference the register handler passes for the picture, the document it builds from
  four strings and a hash, and the condition of its first check.
\<close>

definition picture :: "register_req \<Rightarrow> string" where
  "picture req = (case rq_file req of Some path \<Rightarrow> path | None \<Rightarrow> [])"

definition user_doc :: "string \<Rightarrow> string \<Rightarrow> string \<Rightarrow> string \<Rightarrow> string \<Rightarrow> props" where
  "user_doc oid name email phone h =
     [(''_id'', Str oid), (''name'', Str name), (''email'', Str email), (''phone'', Str phone),
      (''password'', Str h)]"

definition register_missing :: "register_req \<Rightarrow> bool" where
  "register_missing req =
     (falsy (opt_js (rq_name req)) \<or> falsy (opt_js (rq_email req)) \<or>
      falsy (opt_js (rq_phone req)) \<or> falsy (opt_js (rq_password req)))"

section \<open>A test double\<close>

text \<open>
  Concrete stand-ins for the libraries, for running the handlers on examples: a hasher
  that prefixes the salt to the reversed plaintext, a digest that is the key itself, and
  a serialisation that knows three tokens: two with the payload login issues, one signed
  with the server's key and one with another, and one signed with the server's key whose
  payload also has a not-before time.
\<close>

definition demo_payload :: props where
  "demo_payload = [(''id'', Str ''u1''), (''iat'', Num 100), (''exp'', Num 3700)]"

definition demo_early_payload :: props where
  "demo_early_payload =
     [(''id'', Str ''u1''), (''iat'', Num 100), (''nbf'', Num 2000), (''exp'', Num 3700)]"

definition demo_libs :: libs where
  "demo_libs =
     \<lparr>bcrypt_hash = (\<lambda>v rounds s.
         case v of Str p \<Rightarrow> Inr (''$2a$10$'' @ s @ rev p) | _ \<Rightarrow> Inl ''Illegal arguments''),
      bcrypt_compare = (\<lambda>v h.
         case (v, h) of
           (Str p, Str x) \<Rightarrow> Inr (drop 9 x = rev p)
         | _ \<Rightarrow> Inl ''Illegal arguments''),
      jwt_encode = (\<lambda>p sg. ''tok.'' @ sg),
      jwt_decode = (\<lambda>t. if t = ''tok.k1'' then Some (demo_payload, ''k1'')
                         else if t = ''tok.k2'' then Some (demo_payload, ''k2'')
                         else if t = ''early.k1'' then Some (demo_early_payload, ''k1'')
                         else None),
      hmac = (\<lambda>key p. key)\<rparr>"

definition demo_world :: world where
  "demo_world =
     \<lparr>clock = 100, new_oid = ''u1'', salt = ''ab'', jwt_secret = Some ''k1'',
      find_error = None, save_error = None\<rparr>"

definition demo_req :: register_req where
  "demo_req =
     \<lparr>rq_name = Some ''A'', rq_email = Some ''a@x.com'', rq_phone = Some ''1'',
      rq_password = Some ''pw12345'', rq_file = None\<rparr>"

definition demo_user :: props where
  "demo_user =
     [(''_id'', Str ''u1''), (''name'', Str ''A''), (''email'', Str ''a@x.com''),
      (''phone'', Str ''1''), (''password'', Str ''$2a$10$ab54321wp'')]"

section \<open>Auxiliary facts\<close>

lemmas demo_defs = demo_libs_def demo_world_def demo_req_def demo_user_def demo_payload_def

lemmas handler_defs = register_def register_try_def login_def login_try_def await_def
  findOne_def save_def opt_js_def send_def message_def public_view_def doc_get_def field_def
  new_Model_def UserSchema_def validate_def path_errors_def validation_message_def
  duplicate_key_def unique_keys_def jwt_sign_def jwt_verify_def check_nbf_def check_exp_def
  Let_def

lemmas regex_defs = test_def email_re_def Plus_def line_terminator_def

subsection \<open>Splitting the header\<close>

lemma split_not_Nil: "split c s \<noteq> []"
  by (induction s) (auto split: list.splits)

lemma split_no_sep: "c \<notin> set s \<Longrightarrow> split c s = [s]"
  by (induction s) auto

lemma split_first: "c \<notin> set a \<Longrightarrow> split c (a @ c # b) = a # split c b"
  by (induction a) auto

lemma hd_split: "hd (split c s) = takeWhile (\<lambda>x. x \<noteq> c) s"
  using split_not_Nil by (induction s) (auto split: list.splits)

lemma index_second:
  "c \<notin> set a \<Longrightarrow> index (split c (a @ c # b)) 1 = Str (takeWhile (\<lambda>x. x \<noteq> c) b)"
  using split_not_Nil [of c b] hd_split [of c b]
  by (cases "split c b") (auto simp: index_def split_first)

lemma index_single: "c \<notin> set s \<Longrightarrow> index (split c s) 1 = Undefined"
  by (simp add: split_no_sep index_def)

lemma guard_second_segment:
  assumes "CHR '' '' \<notin> set scheme" and "CHR '' '' \<notin> set t"
  shows "authMiddleware L w (Some (scheme @ '' '' @ t)) =
     (if t = [] then Denied (send 401 (message ''Authorization denied. No token provided.''))
      else case jwt_verify L t (jwt_secret w) (clock w) of
             Inr decoded \<Rightarrow> Next decoded
           | Inl e \<Rightarrow> Denied (send 401 (message ''Token is not valid'')))"
proof -
  have "takeWhile (\<lambda>x. x \<noteq> CHR '' '') t = t"
    using assms(2) by auto
  then have "index (split CHR '' '' (scheme @ '' '' @ t)) 1 = Str t"
    using index_second [OF assms(1), of t] by simp
  then show ?thesis
    by (simp add: authMiddleware_def)
qed

subsection \<open>The matcher and the email pattern\<close>

lemma nullable_lang: "nullable r \<longleftrightarrow> [] \<in> lang r"
  by (induction r) (auto intro: star.intros)

lemma star_Cons:
  "c # w \<in> star A \<longleftrightarrow> (\<exists>u v. w = u @ v \<and> c # u \<in> A \<and> v \<in> star A)"
proof
  assume "c # w \<in> star A"
  then show "\<exists>u v. w = u @ v \<and> c # u \<in> A \<and> v \<in> star A"
  proof (induction "c # w" rule: star.induct)
    case (star_Step u v)
    show ?case
    proof (cases u)
      case Nil
      with star_Step show ?thesis by simp
    next
      case (Cons a u')
      with star_Step show ?thesis by auto
    qed
  qed
next
  assume "\<exists>u v. w = u @ v \<and> c # u \<in> A \<and> v \<in> star A"
  then obtain u v where "w = u @ v" "c # u \<in> A" "v \<in> star A" by blast
  then have "(c # u) @ v \<in> star A" by (intro star.star_Step)
  with \<open>w = u @ v\<close> show "c # w \<in> star A" by simp
qed

lemma lang_Cat: "s \<in> lang (Cat r t) \<longleftrightarrow> (\<exists>u v. s = u @ v \<and> u \<in> lang r \<and> v \<in> lang t)"
  by auto

lemma deriv_Cat_lang:
  assumes r: "\<And>w. w \<in> lang (deriv c r) \<longleftrightarrow> c # w \<in> lang r"
    and s: "\<And>w. w \<in> lang (deriv c s) \<longleftrightarrow> c # w \<in> lang s"
  shows "w \<in> lang (deriv c (Cat r s)) \<longleftrightarrow> c # w \<in> lang (Cat r s)"
proof
  assume "w \<in> lang (deriv c (Cat r s))"
  then consider (left) "w \<in> lang (Cat (deriv c r) s)"
    | (right) "nullable r" "w \<in> lang (deriv c s)"
    by (auto split: if_splits)
  then show "c # w \<in> lang (Cat r s)"
  proof cases
    case left
    then obtain u v where "w = u @ v" "u \<in> lang (deriv c r)" "v \<in> lang s"
      unfolding lang_Cat by blast
    then have "c # w = (c # u) @ v" "c # u \<in> lang r" "v \<in> lang s"
      using r by simp_all
    then show ?thesis unfolding lang_Cat by blast
  next
    case right
    then have "c # w = [] @ (c # w)" "[] \<in> lang r" "c # w \<in> lang s"
      using s by (simp_all add: nullable_lang)
    then show ?thesis unfolding lang_Cat by blast
  qed
next
  assume "c # w \<in> lang (Cat r s)"
  then obtain u v where uv: "c # w = u @ v" "u \<in> lang r" "v \<in> lang s"
    unfolding lang_Cat by blast
  show "w \<in> lang (deriv c (Cat r s))"
  proof (cases u)
    case Nil
    with uv have "nullable r" "w \<in> lang (deriv c s)"
      using s by (simp_all add: nullable_lang)
    then show ?thesis by simp
  next
    case (Cons a u')
    with uv have "w = u' @ v" "u' \<in> lang (deriv c r)"
      using r by simp_all
    with uv(3) have "w \<in> lang (Cat (deriv c r) s)"
      unfolding lang_Cat by blast
    then show ?thesis by simp
  qed
qed

lemma deriv_lang: "w \<in> lang (deriv c r) \<longleftrightarrow> c # w \<in> lang r"
proof (induction r arbitrary: w)
  case (Cat r s)
  then show ?case by (rule deriv_Cat_lang)
next
  case (Star r)
  then show ?case by (simp add: star_Cons lang_Cat del: lang.simps(6))
qed auto

lemma matches_lang: "matches r s \<longleftrightarrow> s \<in> lang r"
  by (induction s arbitrary: r) (simp_all add: nullable_lang deriv_lang)

lemma star_Any: "s \<in> star (lang Any)"
proof (induction s)
  case Nil
  show ?case by (rule star.star_Nil)
next
  case (Cons c s)
  have "[c] \<in> lang Any" by simp
  from star.star_Step [OF this Cons] show ?case by simp
qed

lemma test_lang: "test r s \<longleftrightarrow> (\<exists>p m q. s = p @ m @ q \<and> m \<in> lang r)"
proof -
  have "test r s \<longleftrightarrow>
      (\<exists>p v. s = p @ v \<and> p \<in> star (lang Any) \<and>
         (\<exists>m q. v = m @ q \<and> m \<in> lang r \<and> q \<in> star (lang Any)))"
    by (simp only: test_def matches_lang lang_Cat lang.simps(8))
  also have "\<dots> \<longleftrightarrow> (\<exists>p m q. s = p @ m @ q \<and> m \<in> lang r)"
    using star_Any by blast
  finally show ?thesis .
qed

lemma star_Dot: "s \<in> star (lang Dot) \<longleftrightarrow> (\<forall>x \<in> set s. \<not> line_terminator x)"
proof
  assume "s \<in> star (lang Dot)"
  then show "\<forall>x \<in> set s. \<not> line_terminator x"
    by (induction rule: star.induct) auto
next
  assume "\<forall>x \<in> set s. \<not> line_terminator x"
  then show "s \<in> star (lang Dot)"
  proof (induction s)
    case Nil
    show ?case by (rule star.star_Nil)
  next
    case (Cons c s)
    then have "[c] \<in> lang Dot" "s \<in> star (lang Dot)" by auto
    from star.star_Step [OF this] show ?case by simp
  qed
qed

lemma lang_Plus_Dot:
  "s \<in> lang (Plus Dot) \<longleftrightarrow> s \<noteq> [] \<and> (\<forall>x \<in> set s. \<not> line_terminator x)"
proof -
  have "s \<in> lang (Plus Dot) \<longleftrightarrow> (\<exists>u v. s = u @ v \<and> u \<in> lang Dot \<and> v \<in> star (lang Dot))"
    by (simp only: Plus_def lang_Cat lang.simps(8))
  also have "\<dots> \<longleftrightarrow> (\<exists>c v. s = c # v \<and> \<not> line_terminator c \<and> v \<in> star (lang Dot))"
  proof
    assume "\<exists>u v. s = u @ v \<and> u \<in> lang Dot \<and> v \<in> star (lang Dot)"
    then show "\<exists>c v. s = c # v \<and> \<not> line_terminator c \<and> v \<in> star (lang Dot)"
      by auto
  next
    assume "\<exists>c v. s = c # v \<and> \<not> line_terminator c \<and> v \<in> star (lang Dot)"
    then obtain c v where "s = [c] @ v" "[c] \<in> lang Dot" "v \<in> star (lang Dot)"
      by auto
    then show "\<exists>u v. s = u @ v \<and> u \<in> lang Dot \<and> v \<in> star (lang Dot)"
      by blast
  qed
  also have "\<dots> \<longleftrightarrow> s \<noteq> [] \<and> (\<forall>x \<in> set s. \<not> line_terminator x)"
    unfolding star_Dot by (cases s) auto
  finally show ?thesis .
qed

lemma lang_email_re:
  "m \<in> lang email_re \<longleftrightarrow>
     (\<exists>a b c. m = a @ ''@'' @ b @ ''.'' @ c \<and>
        (a \<noteq> [] \<and> (\<forall>x \<in> set a. \<not> line_terminator x)) \<and>
        (b \<noteq> [] \<and> (\<forall>x \<in> set b. \<not> line_terminator x)) \<and>
        (c \<noteq> [] \<and> (\<forall>x \<in> set c. \<not> line_terminator x)))"
proof -
  have "m \<in> lang email_re \<longleftrightarrow>
     (\<exists>a v. m = a @ v \<and> a \<in> lang (Plus Dot) \<and>
        (\<exists>u v'. v = u @ v' \<and> u \<in> lang (Lit CHR ''@'') \<and>
           (\<exists>b v''. v' = b @ v'' \<and> b \<in> lang (Plus Dot) \<and>
              (\<exists>u' c. v'' = u' @ c \<and> u' \<in> lang (Lit CHR ''.'') \<and> c \<in> lang (Plus Dot)))))"
    by (simp only: email_re_def lang_Cat)
  also have "\<dots> \<longleftrightarrow>
     (\<exists>a b c. m = a @ ''@'' @ b @ ''.'' @ c \<and> a \<in> lang (Plus Dot) \<and>
        b \<in> lang (Plus Dot) \<and> c \<in> lang (Plus Dot))"
    by (simp del: lang.simps add: lang.simps(5)) blast
  finally show ?thesis
    by (simp only: lang_Plus_Dot)
qed

lemma test_email_re:
  "test email_re s \<longleftrightarrow>
     (\<exists>p a b c q. s = p @ a @ ''@'' @ b @ ''.'' @ c @ q \<and>
        (a \<noteq> [] \<and> (\<forall>x \<in> set a. \<not> line_terminator x)) \<and>
        (b \<noteq> [] \<and> (\<forall>x \<in> set b. \<not> line_terminator x)) \<and>
        (c \<noteq> [] \<and> (\<forall>x \<in> set c. \<not> line_terminator x)))"
proof
  assume "test email_re s"
  then obtain p m q a b c where "s = p @ m @ q" "m = a @ ''@'' @ b @ ''.'' @ c"
    and abc: "a \<noteq> [] \<and> (\<forall>x \<in> set a. \<not> line_terminator x)"
      "b \<noteq> [] \<and> (\<forall>x \<in> set b. \<not> line_terminator x)"
      "c \<noteq> [] \<and> (\<forall>x \<in> set c. \<not> line_terminator x)"
    unfolding test_lang lang_email_re by blast
  then have "s = p @ a @ ''@'' @ b @ ''.'' @ c @ q" by simp
  with abc show "\<exists>p a b c q. s = p @ a @ ''@'' @ b @ ''.'' @ c @ q \<and>
        (a \<noteq> [] \<and> (\<forall>x \<in> set a. \<not> line_terminator x)) \<and>
        (b \<noteq> [] \<and> (\<forall>x \<in> set b. \<not> line_terminator x)) \<and>
        (c \<noteq> [] \<and> (\<forall>x \<in> set c. \<not> line_terminator x))"
    by blast
next
  assume "\<exists>p a b c q. s = p @ a @ ''@'' @ b @ ''.'' @ c @ q \<and>
        (a \<noteq> [] \<and> (\<forall>x \<in> set a. \<not> line_terminator x)) \<and>
        (b \<noteq> [] \<and> (\<forall>x \<in> set b. \<not> line_terminator x)) \<and>
        (c \<noteq> [] \<and> (\<forall>x \<in> set c. \<not> line_terminator x))"
  then obtain p a b c q where s: "s = p @ a @ ''@'' @ b @ ''.'' @ c @ q"
    and abc: "a \<noteq> [] \<and> (\<forall>x \<in> set a. \<not> line_terminator x)"
      "b \<noteq> [] \<and> (\<forall>x \<in> set b. \<not> line_terminator x)"
      "c \<noteq> [] \<and> (\<forall>x \<in> set c. \<not> line_terminator x)"
    by blast
  from abc have "a @ ''@'' @ b @ ''.'' @ c \<in> lang email_re"
    unfolding lang_email_re by blast
  moreover from s have "s = p @ (a @ ''@'' @ b @ ''.'' @ c) @ q" by simp
  ultimately show "test email_re s"
    unfolding test_lang by blast
qed

lemma email_without_at: "CHR ''@'' \<notin> set s \<Longrightarrow> \<not> test email_re s"
  by (auto simp: test_email_re)

subsection \<open>The store and the schema\<close>

lemma find_email_Some:
  "\<exists>u \<in> set db. field u ''email'' = v \<Longrightarrow> \<exists>u. find (\<lambda>d. field d ''email'' = v) db = Some u"
  by (induction db) auto

lemma validate_ok:
  "validate UserSchema d = [] \<longleftrightarrow>
     (\<forall>k \<in> {''name'', ''email'', ''phone'', ''password''}.
        field d k \<noteq> Undefined \<and> field d k \<noteq> Str []) \<and>
     (\<forall>s. field d ''email'' = Str s \<longrightarrow> test email_re s)"
  by (auto simp: validate_def UserSchema_def path_errors_def split: jsval.splits)

lemma new_User_fields:
  "new_Model UserSchema oid
     [(''name'', Str n), (''email'', Str e), (''phone'', Str p), (''password'', Str h),
      (''profilePicture'', pic)] =
   [(''_id'', Str oid), (''name'', Str n), (''email'', Str e), (''phone'', Str p),
    (''password'', Str h)]"
  by (simp add: new_Model_def UserSchema_def)

lemma login_try_Inl:
  "login_try L w db req = Inl e \<longleftrightarrow>
     (findOne w db (opt_js (lq_email req)) = Inl e \<or>
      (\<exists>user. findOne w db (opt_js (lq_email req)) = Inr (Some user) \<and>
         (bcrypt_compare L (opt_js (lq_password req)) (field user ''password'') = Inl e \<or>
          (bcrypt_compare L (opt_js (lq_password req)) (field user ''password'') = Inr True \<and>
           jwt_sign L [(''id'', field user ''_id'')] (jwt_secret w) (clock w) = Inl e))))"
  by (auto simp: login_try_def await_def Let_def split: sum.splits option.splits)

lemma register_demo:
  "register demo_libs demo_world [] demo_req =
     (send 201 (Obj [(''message'', Str ''User registered successfully''),
                     (''user'', Obj [(''id'', Str ''u1''), (''name'', Str ''A''),
                                     (''email'', Str ''a@x.com''), (''phone'', Str ''1'')])]),
      [demo_user])"
  by (simp add: demo_defs handler_defs regex_defs)

subsection \<open>The register handler, case by case\<close>

lemma register_try_missing:
  "register_missing req \<Longrightarrow>
     register_try L w db req = Inr (send 400 (message ''All fields are required''), db)"
  by (auto simp: register_try_def register_missing_def Let_def)

lemma register_try_fields:
  assumes "rq_name req = Some name" "name \<noteq> []" "rq_email req = Some email" "email \<noteq> []"
    "rq_phone req = Some phone" "phone \<noteq> []"
    "rq_password req = Some password" "password \<noteq> []"
  shows "register_try L w db req =
     await (findOne w db (Str email)) (\<lambda>existingUser.
       if existingUser \<noteq> None
       then Inr (send 400 (message ''User already exists''), db)
       else await (bcrypt_hash L (Str password) 10 (salt w)) (\<lambda>h.
              await (save w db (user_doc (new_oid w) name email phone h)) (\<lambda>db'.
                Inr (send 201
                       (Obj [(''message'', Str ''User registered successfully''),
                             (''user'', public_view (user_doc (new_oid w) name email phone h))]),
                     db'))))"
  using assms
  by (simp add: register_try_def opt_js_def Let_def new_User_fields user_doc_def cong: if_cong)

lemma find_None_email:
  "find (\<lambda>d. field d ''email'' = v) db = None \<longleftrightarrow> (\<forall>e \<in> set db. field e ''email'' \<noteq> v)"
  by (auto simp: find_None_iff)

lemma validate_user_doc:
  "validate UserSchema (user_doc oid name email phone h) = [] \<longleftrightarrow>
     name \<noteq> [] \<and> email \<noteq> [] \<and> phone \<noteq> [] \<and> h \<noteq> [] \<and> test email_re email"
  by (auto simp: validate_ok user_doc_def field_def)

lemma duplicate_user_doc:
  "duplicate_key UserSchema db (user_doc oid name email phone h) \<longleftrightarrow>
     (\<exists>e \<in> set db. field e ''_id'' = Str oid \<or> field e ''email'' = Str email)"
  by (auto simp: duplicate_key_def unique_keys_def UserSchema_def user_doc_def field_def)

lemma save_user_doc:
  "save w db (user_doc oid name email phone h) = Inr db' \<longleftrightarrow>
     name \<noteq> [] \<and> email \<noteq> [] \<and> phone \<noteq> [] \<and> h \<noteq> [] \<and> test email_re email \<and>
     save_error w = None \<and>
     (\<forall>e \<in> set db. field e ''_id'' \<noteq> Str oid \<and> field e ''email'' \<noteq> Str email) \<and>
     db' = db @ [user_doc oid name email phone h]"
  using validate_user_doc [of oid name email phone h]
    duplicate_user_doc [of db oid name email phone h]
  by (auto simp: save_def split: list.splits option.splits)

lemma public_view_user_doc:
  "send c (Obj [(''message'', Str m), (''user'', public_view (user_doc oid name email phone h))]) =
     \<lparr>status = c,
      body = Obj [(''message'', Str m),
                  (''user'', Obj [(''id'', Str oid), (''name'', Str name),
                                  (''email'', Str email), (''phone'', Str phone)])]\<rparr>"
  by (simp add: send_def public_view_def doc_get_def UserSchema_def user_doc_def field_def)

lemma register_201:
  "status (fst (register L w db req)) = 201 \<longleftrightarrow>
     (\<exists>name email phone password h.
        rq_name req = Some name \<and> name \<noteq> [] \<and> rq_email req = Some email \<and> email \<noteq> [] \<and>
        rq_phone req = Some phone \<and> phone \<noteq> [] \<and>
        rq_password req = Some password \<and> password \<noteq> [] \<and>
        findOne w db (Str email) = Inr None \<and>
        bcrypt_hash L (Str password) 10 (salt w) = Inr h \<and>
        save w db (user_doc (new_oid w) name email phone h) =
          Inr (db @ [user_doc (new_oid w) name email phone h]) \<and>
        register L w db req =
          (send 201 (Obj [(''message'', Str ''User registered successfully''),
                          (''user'', public_view (user_doc (new_oid w) name email phone h))]),
           db @ [user_doc (new_oid w) name email phone h]))"
proof
  assume s201: "status (fst (register L w db req)) = 201"
  then obtain r where t: "register_try L w db req = Inr r" and s: "status (fst r) = 201"
    by (auto simp: register_def send_def split: sum.splits)
  have "\<not> register_missing req"
    using t s by (auto simp: register_try_missing send_def)
  then obtain name email phone password where
    f: "rq_name req = Some name" "name \<noteq> []" "rq_email req = Some email" "email \<noteq> []"
       "rq_phone req = Some phone" "phone \<noteq> []"
       "rq_password req = Some password" "password \<noteq> []"
    by (auto simp: register_missing_def opt_js_def split: option.splits)
  note flat = register_try_fields [OF f, of L w db]
  from t s have fo: "findOne w db (Str email) = Inr None"
    unfolding flat by (auto simp: send_def await_def split: sum.splits if_splits)
  from t s fo obtain h where h: "bcrypt_hash L (Str password) 10 (salt w) = Inr h"
    unfolding flat by (auto simp: send_def await_def split: sum.splits if_splits)
  define u where "u = user_doc (new_oid w) name email phone h"
  from t fo h have sv: "save w db u = Inr (snd r)"
    and r: "fst r = send 201 (Obj [(''message'', Str ''User registered successfully''),
                                    (''user'', public_view u)])"
    unfolding flat by (auto simp: await_def u_def split: sum.splits)
  from sv have db': "snd r = db @ [u]"
    by (auto simp: save_def split: list.splits option.splits if_splits)
  have reg: "register L w db req = r"
    using t by (simp add: register_def)
  have "register L w db req =
      (send 201 (Obj [(''message'', Str ''User registered successfully''),
                      (''user'', public_view u)]), db @ [u])"
    unfolding reg using r db' by (simp add: prod_eq_iff)
  with f fo h sv db' show "\<exists>name email phone password h.
        rq_name req = Some name \<and> name \<noteq> [] \<and> rq_email req = Some email \<and> email \<noteq> [] \<and>
        rq_phone req = Some phone \<and> phone \<noteq> [] \<and>
        rq_password req = Some password \<and> password \<noteq> [] \<and>
        findOne w db (Str email) = Inr None \<and>
        bcrypt_hash L (Str password) 10 (salt w) = Inr h \<and>
        save w db (user_doc (new_oid w) name email phone h) =
          Inr (db @ [user_doc (new_oid w) name email phone h]) \<and>
        register L w db req =
          (send 201 (Obj [(''message'', Str ''User registered successfully''),
                          (''user'', public_view (user_doc (new_oid w) name email phone h))]),
           db @ [user_doc (new_oid w) name email phone h])"
    unfolding u_def by auto
next
  assume "\<exists>name email phone password h.
        rq_name req = Some name \<and> name \<noteq> [] \<and> rq_email req = Some email \<and> email \<noteq> [] \<and>
        rq_phone req = Some phone \<and> phone \<noteq> [] \<and>
        rq_password req = Some password \<and> password \<noteq> [] \<and>
        findOne w db (Str email) = Inr None \<and>
        bcrypt_hash L (Str password) 10 (salt w) = Inr h \<and>
        save w db (user_doc (new_oid w) name email phone h) =
          Inr (db @ [user_doc (new_oid w) name email phone h]) \<and>
        register L w db req =
          (send 201 (Obj [(''message'', Str ''User registered successfully''),
                          (''user'', public_view (user_doc (new_oid w) name email phone h))]),
           db @ [user_doc (new_oid w) name email phone h])"
  then show "status (fst (register L w db req)) = 201"
    by (auto simp: send_def)
qed

lemma register_succeeds:
  assumes f: "rq_name req = Some name" "name \<noteq> []" "rq_email req = Some email" "email \<noteq> []"
       "rq_phone req = Some phone" "phone \<noteq> []"
       "rq_password req = Some password" "password \<noteq> []"
    and fo: "findOne w db (Str email) = Inr None"
    and h: "bcrypt_hash L (Str password) 10 (salt w) = Inr h"
    and sv: "save w db (user_doc (new_oid w) name email phone h) =
          Inr (db @ [user_doc (new_oid w) name email phone h])"
  shows "register L w db req =
          (send 201 (Obj [(''message'', Str ''User registered successfully''),
                          (''user'', public_view (user_doc (new_oid w) name email phone h))]),
           db @ [user_doc (new_oid w) name email phone h])"
  unfolding register_def register_try_fields [OF f] using fo h sv by (simp add: await_def)

subsection \<open>The verifier and the guard\<close>

lemma check_nbf_None:
  "check_nbf c now = None \<longleftrightarrow>
     (field c ''nbf'' = Undefined \<or> (\<exists>b. field c ''nbf'' = Num b \<and> b \<le> now))"
  by (auto simp: check_nbf_def split: jsval.splits)

lemma check_exp_None:
  "check_exp c now = None \<longleftrightarrow>
     (field c ''exp'' = Undefined \<or> (\<exists>e. field c ''exp'' = Num e \<and> now < e))"
  by (auto simp: check_exp_def split: jsval.splits)

lemma verify_Inr:
  "jwt_verify L t secret now = Inr c \<longleftrightarrow>
     (\<exists>sg key. jwt_decode L t = Some (c, sg) \<and> secret = Some key \<and> key \<noteq> [] \<and>
        sg = hmac L key c \<and>
        (field c ''nbf'' = Undefined \<or> (\<exists>b. field c ''nbf'' = Num b \<and> b \<le> now)) \<and>
        (field c ''exp'' = Undefined \<or> (\<exists>e. field c ''exp'' = Num e \<and> now < e)))"
  unfolding check_nbf_None [symmetric] check_exp_None [symmetric]
  by (auto simp: jwt_verify_def split: option.splits if_splits)

lemma guard_Next:
  "authMiddleware L w header = Next c \<longleftrightarrow>
     (\<exists>h t. header = Some h \<and> index (split CHR '' '' h) 1 = Str t \<and> t \<noteq> [] \<and>
        jwt_verify L t (jwt_secret w) (clock w) = Inr c)"
  by (auto simp: authMiddleware_def index_def Let_def
      split: option.splits jsval.splits sum.splits if_splits)

lemma guard_Next_full:
  "(authMiddleware L w header = Next c) \<longleftrightarrow>
      (\<exists>h t sg key. header = Some h \<and> index (split CHR '' '' h) 1 = Str t \<and> t \<noteq> [] \<and>
         jwt_decode L t = Some (c, sg) \<and>
         jwt_secret w = Some key \<and> key \<noteq> [] \<and> sg = hmac L key c \<and>
         (field c ''nbf'' = Undefined \<or> (\<exists>b. field c ''nbf'' = Num b \<and> b \<le> clock w)) \<and>
         (field c ''exp'' = Undefined \<or> (\<exists>e. field c ''exp'' = Num e \<and> clock w < e)))"
proof -
  have "(authMiddleware L w header = Next c) \<longleftrightarrow>
     (\<exists>h t. header = Some h \<and> index (split CHR '' '' h) 1 = Str t \<and> t \<noteq> [] \<and>
        (\<exists>sg key. jwt_decode L t = Some (c, sg) \<and> jwt_secret w = Some key \<and> key \<noteq> [] \<and>
        sg = hmac L key c \<and>
        (field c ''nbf'' = Undefined \<or> (\<exists>b. field c ''nbf'' = Num b \<and> b \<le> clock w)) \<and>
        (field c ''exp'' = Undefined \<or> (\<exists>e. field c ''exp'' = Num e \<and> clock w < e))))"
    by (simp only: guard_Next verify_Inr)
  then show ?thesis
    by (simp only: ex_simps)
qed

lemma verify_Inl_cases:
  assumes "jwt_decode L t = None \<or>
         (\<exists>p sg key. jwt_decode L t = Some (p, sg) \<and> secret = Some key \<and>
            sg \<noteq> hmac L key p) \<or>
         (\<exists>p sg b. jwt_decode L t = Some (p, sg) \<and> field p ''nbf'' = Num b \<and> now < b) \<or>
         (\<exists>p sg e. jwt_decode L t = Some (p, sg) \<and> field p ''exp'' = Num e \<and> e \<le> now)"
  shows "\<exists>e. jwt_verify L t secret now = Inl e"
proof (cases "jwt_verify L t secret now")
  case (Inl e)
  then show ?thesis by blast
next
  case (Inr d)
  then obtain sg key where d: "jwt_decode L t = Some (d, sg)" "secret = Some key"
    "sg = hmac L key d"
    and nbf: "field d ''nbf'' = Undefined \<or> (\<exists>b. field d ''nbf'' = Num b \<and> b \<le> now)"
    and exp: "field d ''exp'' = Undefined \<or> (\<exists>e. field d ''exp'' = Num e \<and> now < e)"
    unfolding verify_Inr by blast
  from assms d nbf exp have False
    by (elim disjE exE conjE) simp_all
  then show ?thesis ..
qed

lemma guard_invalid:
  assumes ht: "header = Some h" "index (split CHR '' '' h) 1 = Str t" "t \<noteq> []"
    and bad: "(\<exists>e. jwt_verify L t (jwt_secret w) (clock w) = Inl e) \<or>
       (\<forall>d. authMiddleware L w header \<noteq> Next d)"
  shows "authMiddleware L w header = Denied (send 401 (message ''Token is not valid''))"
proof -
  have g: "authMiddleware L w header =
        (case jwt_verify L t (jwt_secret w) (clock w) of
           Inr decoded \<Rightarrow> Next decoded
         | Inl e \<Rightarrow> Denied (send 401 (message ''Token is not valid'')))"
    using ht by (simp add: authMiddleware_def)
  show ?thesis
  proof (cases "jwt_verify L t (jwt_secret w) (clock w)")
    case (Inl e)
    then show ?thesis using g by simp
  next
    case (Inr d)
    then have "authMiddleware L w header = Next d"
      using g by simp
    with bad Inr show ?thesis by auto
  qed
qed

section \<open>Register\<close>

text \<open>
  Claim C1, as the code has it. A register request is answered with 201 exactly when its
  four fields are present and non-empty, the lookup finds no stored user with the email,
  the email matches the schema's pattern, the hasher returns a hash that is not empty,
  the store takes the write and no stored record has the new identifier. Then one record
  is added, made of the new identifier, the request's name, email and phone and, as
  \<^verbatim>\<open>password\<close>, what \<^verbatim>\<open>bcrypt.hash(password, 10)\<close> returned: the plaintext goes to the
  hasher and into no field. The response is 201 with the success message and a \<^verbatim>\<open>user\<close>
  object made of that identifier, name, email and phone and of nothing else: it has no
  place for the hash or the plaintext. Record and \<^verbatim>\<open>user\<close> object hold beside these at
  most a \<^verbatim>\<open>profilePicture\<close> with the reference the handler passed.
\<close>

theorem register_created_hashed_public:
  "(status (fst (register L w db req)) = 201 \<longleftrightarrow>
      (\<exists>name email phone password h.
         rq_name req = Some name \<and> name \<noteq> [] \<and> rq_email req = Some email \<and> email \<noteq> [] \<and>
         rq_phone req = Some phone \<and> phone \<noteq> [] \<and>
         rq_password req = Some password \<and> password \<noteq> [] \<and>
         findOne w db (Str email) = Inr None \<and> test email_re email \<and>
         bcrypt_hash L (Str password) 10 (salt w) = Inr h \<and> h \<noteq> [] \<and>
         save_error w = None \<and> (\<forall>e \<in> set db. field e ''_id'' \<noteq> Str (new_oid w)))) \<and>
   (status (fst (register L w db req)) = 201 \<longrightarrow>
      (\<exists>name email phone password h stored shown.
         rq_name req = Some name \<and> rq_email req = Some email \<and> rq_phone req = Some phone \<and>
         rq_password req = Some password \<and>
         bcrypt_hash L (Str password) 10 (salt w) = Inr h \<and>
         (stored = [] \<or> stored = [(''profilePicture'', Str (picture req))]) \<and>
         (shown = [] \<or> shown = [(''profilePicture'', Str (picture req))]) \<and>
         snd (register L w db req) =
           db @ [[(''_id'', Str (new_oid w)), (''name'', Str name), (''email'', Str email),
                  (''phone'', Str phone), (''password'', Str h)] @ stored] \<and>
         fst (register L w db req) =
           \<lparr>status = 201,
            body = Obj [(''message'', Str ''User registered successfully''),
                        (''user'', Obj ([(''id'', Str (new_oid w)), (''name'', Str name),
                                         (''email'', Str email), (''phone'', Str phone)]
                                        @ shown))]\<rparr>))"
proof (intro conjI impI iffI)
  assume "status (fst (register L w db req)) = 201"
  then obtain name email phone password h where
    f: "rq_name req = Some name" "name \<noteq> []" "rq_email req = Some email" "email \<noteq> []"
       "rq_phone req = Some phone" "phone \<noteq> []"
       "rq_password req = Some password" "password \<noteq> []"
    and fo: "findOne w db (Str email) = Inr None"
    and h: "bcrypt_hash L (Str password) 10 (salt w) = Inr h"
    and sv: "save w db (user_doc (new_oid w) name email phone h) =
          Inr (db @ [user_doc (new_oid w) name email phone h])"
    unfolding register_201 by blast
  from sv have "test email_re email" "h \<noteq> []" "save_error w = None"
    "\<forall>e \<in> set db. field e ''_id'' \<noteq> Str (new_oid w)"
    unfolding save_user_doc by blast+
  with f fo h show "\<exists>name email phone password h.
         rq_name req = Some name \<and> name \<noteq> [] \<and> rq_email req = Some email \<and> email \<noteq> [] \<and>
         rq_phone req = Some phone \<and> phone \<noteq> [] \<and>
         rq_password req = Some password \<and> password \<noteq> [] \<and>
         findOne w db (Str email) = Inr None \<and> test email_re email \<and>
         bcrypt_hash L (Str password) 10 (salt w) = Inr h \<and> h \<noteq> [] \<and>
         save_error w = None \<and> (\<forall>e \<in> set db. field e ''_id'' \<noteq> Str (new_oid w))"
    by blast
next
  assume "\<exists>name email phone password h.
         rq_name req = Some name \<and> name \<noteq> [] \<and> rq_email req = Some email \<and> email \<noteq> [] \<and>
         rq_phone req = Some phone \<and> phone \<noteq> [] \<and>
         rq_password req = Some password \<and> password \<noteq> [] \<and>
         findOne w db (Str email) = Inr None \<and> test email_re email \<and>
         bcrypt_hash L (Str password) 10 (salt w) = Inr h \<and> h \<noteq> [] \<and>
         save_error w = None \<and> (\<forall>e \<in> set db. field e ''_id'' \<noteq> Str (new_oid w))"
  then obtain name email phone password h where
    f: "rq_name req = Some name" "name \<noteq> []" "rq_email req = Some email" "email \<noteq> []"
       "rq_phone req = Some phone" "phone \<noteq> []"
       "rq_password req = Some password" "password \<noteq> []"
    and fo: "findOne w db (Str email) = Inr None"
    and h: "bcrypt_hash L (Str password) 10 (salt w) = Inr h"
    and ok: "test email_re email" "h \<noteq> []" "save_error w = None"
      "\<forall>e \<in> set db. field e ''_id'' \<noteq> Str (new_oid w)"
    by blast
  from fo have "\<forall>e \<in> set db. field e ''email'' \<noteq> Str email"
    by (simp add: findOne_def find_None_email split: option.splits)
  with f ok have sv: "save w db (user_doc (new_oid w) name email phone h) =
          Inr (db @ [user_doc (new_oid w) name email phone h])"
    unfolding save_user_doc by blast
  from register_succeeds [OF f fo h sv]
  show "status (fst (register L w db req)) = 201"
    by (simp add: send_def)
next
  assume "status (fst (register L w db req)) = 201"
  then obtain name email phone password h where
    f: "rq_name req = Some name" "rq_email req = Some email" "rq_phone req = Some phone"
       "rq_password req = Some password"
    and h: "bcrypt_hash L (Str password) 10 (salt w) = Inr h"
    and reg: "register L w db req =
          (send 201 (Obj [(''message'', Str ''User registered successfully''),
                          (''user'', public_view (user_doc (new_oid w) name email phone h))]),
           db @ [user_doc (new_oid w) name email phone h])"
    unfolding register_201 by blast
  have "snd (register L w db req) =
           db @ [[(''_id'', Str (new_oid w)), (''name'', Str name), (''email'', Str email),
                  (''phone'', Str phone), (''password'', Str h)] @ []]"
    unfolding reg by (simp add: user_doc_def)
  moreover have "fst (register L w db req) =
           \<lparr>status = 201,
            body = Obj [(''message'', Str ''User registered successfully''),
                        (''user'', Obj ([(''id'', Str (new_oid w)), (''name'', Str name),
                                         (''email'', Str email), (''phone'', Str phone)]
                                        @ []))]\<rparr>"
    unfolding reg by (simp add: public_view_user_doc)
  ultimately show "\<exists>name email phone password h stored shown.
         rq_name req = Some name \<and> rq_email req = Some email \<and> rq_phone req = Some phone \<and>
         rq_password req = Some password \<and>
         bcrypt_hash L (Str password) 10 (salt w) = Inr h \<and>
         (stored = [] \<or> stored = [(''profilePicture'', Str (picture req))]) \<and>
         (shown = [] \<or> shown = [(''profilePicture'', Str (picture req))]) \<and>
         snd (register L w db req) =
           db @ [[(''_id'', Str (new_oid w)), (''name'', Str name), (''email'', Str email),
                  (''phone'', Str phone), (''password'', Str h)] @ stored] \<and>
         fst (register L w db req) =
           \<lparr>status = 201,
            body = Obj [(''message'', Str ''User registered successfully''),
                        (''user'', Obj ([(''id'', Str (new_oid w)), (''name'', Str name),
                                         (''email'', Str email), (''phone'', Str phone)]
                                        @ shown))]\<rparr>"
    using f h by blast
qed

theorem register_created_hashed_public_witness:
  "status (fst (register demo_libs demo_world [] demo_req)) = 201 \<and>
   bcrypt_hash demo_libs (Str ''pw12345'') 10 ''ab'' = Inr ''$2a$10$ab54321wp'' \<and>
   snd (register demo_libs demo_world [] demo_req) =
     [[(''_id'', Str ''u1''), (''name'', Str ''A''), (''email'', Str ''a@x.com''),
       (''phone'', Str ''1''), (''password'', Str ''$2a$10$ab54321wp'')]] \<and>
   fst (register demo_libs demo_world [] demo_req) =
     \<lparr>status = 201,
      body = Obj [(''message'', Str ''User registered successfully''),
                  (''user'', Obj [(''id'', Str ''u1''), (''name'', Str ''A''),
                                  (''email'', Str ''a@x.com''), (''phone'', Str ''1'')])]\<rparr>"
proof -
  have h: "bcrypt_hash demo_libs (Str ''pw12345'') 10 (salt demo_world) = Inr ''$2a$10$ab54321wp''"
    by (simp add: demo_libs_def demo_world_def)
  have c: "\<exists>name email phone password h.
         rq_name demo_req = Some name \<and> name \<noteq> [] \<and>
         rq_email demo_req = Some email \<and> email \<noteq> [] \<and>
         rq_phone demo_req = Some phone \<and> phone \<noteq> [] \<and>
         rq_password demo_req = Some password \<and> password \<noteq> [] \<and>
         findOne demo_world [] (Str email) = Inr None \<and> test email_re email \<and>
         bcrypt_hash demo_libs (Str password) 10 (salt demo_world) = Inr h \<and> h \<noteq> [] \<and>
         save_error demo_world = None \<and>
         (\<forall>e \<in> set []. field e ''_id'' \<noteq> Str (new_oid demo_world))"
    using h by (simp add: demo_req_def demo_world_def findOne_def regex_defs)
  from register_created_hashed_public [of demo_libs demo_world "[]" demo_req] c
  have s: "status (fst (register demo_libs demo_world [] demo_req)) = 201"
    by blast
  show ?thesis
    using s h unfolding register_demo
    by (simp add: send_def demo_user_def demo_world_def)
qed


text \<open>
  Where claim C1 as written fails: a request with all four fields and an email that is
  not stored, but without an \<^verbatim>\<open>@\<close>, is answered with 500 and stores nothing; and the
  \<^verbatim>\<open>user\<close> object of a 201 response has the four properties id, name, email and phone.
\<close>

theorem register_success_counterexample:
  "status (fst (register demo_libs demo_world [] (demo_req\<lparr>rq_email := Some ''abc''\<rparr>))) = 500 \<and>
   snd (register demo_libs demo_world [] (demo_req\<lparr>rq_email := Some ''abc''\<rparr>)) = [] \<and>
   status (fst (register demo_libs demo_world [] demo_req)) = 201 \<and>
   keys (get_prop (body (fst (register demo_libs demo_world [] demo_req))) ''user'')
     = [''id'', ''name'', ''email'', ''phone'']"
  by (simp add: demo_defs handler_defs regex_defs)

text \<open>
  Claim C4. When a stored user has the request's email, register inserts nothing,
  whatever else the request holds; when the other fields are there and the lookup does
  not fail, the answer is 400 with the user-exists message. The number of records with
  that email is the same afterwards, so exactly one if exactly one there was.
\<close>

theorem register_duplicate_email_conflict:
  assumes "rq_email req = Some email" and "\<exists>u \<in> set db. field u ''email'' = Str email"
  shows "snd (register L w db req) = db \<and>
     length (filter (\<lambda>u. field u ''email'' = Str email) (snd (register L w db req))) =
       length (filter (\<lambda>u. field u ''email'' = Str email) db) \<and>
     ((\<exists>name phone password. rq_name req = Some name \<and> name \<noteq> [] \<and> email \<noteq> [] \<and>
         rq_phone req = Some phone \<and> phone \<noteq> [] \<and>
         rq_password req = Some password \<and> password \<noteq> []) \<and> find_error w = None
       \<longrightarrow> fst (register L w db req) = send 400 (message ''User already exists'') \<and>
           status (fst (register L w db req)) = 400)"
proof -
  from find_email_Some [OF assms(2)]
  obtain u where u: "find (\<lambda>d. field d ''email'' = Str email) db = Some u"
    by blast
  have unchanged: "snd (register L w db req) = db"
    using u assms(1)
    by (auto simp: register_def register_try_def await_def Let_def findOne_def opt_js_def
        split: sum.splits option.splits)
  have conflict: "fst (register L w db req) = send 400 (message ''User already exists'')"
    if "rq_name req = Some name" "name \<noteq> []" "email \<noteq> []" "rq_phone req = Some phone"
      "phone \<noteq> []" "rq_password req = Some password" "password \<noteq> []" "find_error w = None"
    for name phone password
    using that u assms(1)
    by (simp add: register_def register_try_def await_def findOne_def opt_js_def)
  show ?thesis
    using unchanged conflict by (auto simp: send_def)
qed

theorem register_duplicate_email_conflict_witness:
  "register demo_libs demo_world [demo_user] demo_req
     = (send 400 (message ''User already exists''), [demo_user]) \<and>
   length (filter (\<lambda>u. field u ''email'' = Str ''a@x.com'')
     (snd (register demo_libs demo_world [demo_user] demo_req))) = 1"
  using register_duplicate_email_conflict
    [of demo_req "''a@x.com''" "[demo_user]" demo_libs demo_world]
  by (auto simp: demo_defs field_def prod_eq_iff)

text \<open>
  Claim C6, as the code has it. A register request with its four fields non-empty and an
  email that no stored user has and that fails the schema's pattern (by
  \<open>test_email_re\<close>: it holds no \<^verbatim>\<open>@\<close> with a character before it and, after it, a
  character, a dot and a character, none of them a line break) is not answered with
  400: the document fails validation when it is saved, the handler's \<^verbatim>\<open>catch\<close> answers
  500 with the message \<^verbatim>\<open>Server error\<close>, and nothing is stored.
\<close>

theorem register_malformed_email_server_error:
  assumes "rq_name req = Some name" "name \<noteq> []" "rq_email req = Some email" "email \<noteq> []"
    "rq_phone req = Some phone" "phone \<noteq> []"
    "rq_password req = Some password" "password \<noteq> []"
    and "findOne w db (Str email) = Inr None"
    and "\<not> test email_re email"
  shows "status (fst (register L w db req)) = 500 \<and>
         get_prop (body (fst (register L w db req))) ''message'' = Str ''Server error'' \<and>
         snd (register L w db req) = db"
proof -
  note f = assms(1-8)
  have "validate UserSchema (user_doc (new_oid w) name email phone h) \<noteq> []" for h
    using assms(4,10) by (simp add: validate_ok user_doc_def field_def)
  then have sv: "\<exists>e. save w db (user_doc (new_oid w) name email phone h) = Inl e" for h
    by (auto simp: save_def split: list.splits)
  have "\<exists>e. register_try L w db req = Inl e"
  proof (cases "bcrypt_hash L (Str password) 10 (salt w)")
    case (Inl e)
    then show ?thesis
      unfolding register_try_fields [OF f] using assms(9) by (simp add: await_def)
  next
    case (Inr h)
    from sv [of h] obtain e where "save w db (user_doc (new_oid w) name email phone h) = Inl e"
      by blast
    with Inr show ?thesis
      unfolding register_try_fields [OF f] using assms(9) by (simp add: await_def)
  qed
  then show ?thesis
    by (auto simp: register_def send_def field_def)
qed

theorem register_malformed_email_server_error_witness:
  "\<not> test email_re ''a.b'' \<and>
   status (fst (register demo_libs demo_world [demo_user]
     (demo_req\<lparr>rq_email := Some ''a.b''\<rparr>))) = 500 \<and>
   snd (register demo_libs demo_world [demo_user] (demo_req\<lparr>rq_email := Some ''a.b''\<rparr>))
     = [demo_user]"
  using register_malformed_email_server_error
    [of "demo_req\<lparr>rq_email := Some ''a.b''\<rparr>" "''A''" "''a.b''" "''1''" "''pw12345''"
        demo_world "[demo_user]" demo_libs]
  by (simp add: demo_defs findOne_def field_def regex_defs)

text \<open>
  Where claim C6 as written fails: an email without \<^verbatim>\<open>@\<close> in an otherwise complete
  request is answered with 500, not 400.
\<close>

theorem register_malformed_email_counterexample:
  "\<not> test email_re ''nobody'' \<and>
   register demo_libs demo_world [] (demo_req\<lparr>rq_email := Some ''nobody''\<rparr>) =
     (\<lparr>status = 500,
       body = Obj [(''message'', Str ''Server error''),
                   (''error'',
                    Str ''User validation failed: email: Please fill a valid email address'')]\<rparr>,
      [])"
  by (simp add: demo_defs handler_defs regex_defs)

text \<open>
  Claim C7 on the code. A user registered without a picture: the public view of the 201
  response has no \<^verbatim>\<open>profilePicture\<close> (it reads as \<^verbatim>\<open>undefined\<close>, not as the empty
  string), the stored record has none, and the view a later login returns has none. The
  same request with a picture gets the same answer and stores the same record.
\<close>

theorem register_profile_picture_missing:
  "rq_file demo_req = None \<and>
   status (fst (register demo_libs demo_world [] demo_req)) = 201 \<and>
   get_prop (get_prop (body (fst (register demo_libs demo_world [] demo_req))) ''user'')
     ''profilePicture'' = Undefined \<and>
   Undefined \<noteq> Str [] \<and>
   snd (register demo_libs demo_world [] demo_req) = [demo_user] \<and>
   field demo_user ''profilePicture'' = Undefined \<and>
   status (login demo_libs demo_world [demo_user]
       \<lparr>lq_email = Some ''a@x.com'', lq_password = Some ''pw12345''\<rparr>) = 200 \<and>
   get_prop (get_prop (body (login demo_libs demo_world [demo_user]
       \<lparr>lq_email = Some ''a@x.com'', lq_password = Some ''pw12345''\<rparr>)) ''user'')
     ''profilePicture'' = Undefined \<and>
   register demo_libs demo_world [] (demo_req\<lparr>rq_file := Some ''uploads/17.png''\<rparr>) =
     register demo_libs demo_world [] demo_req"
  by (simp add: demo_defs handler_defs regex_defs)

section \<open>Login\<close>

text \<open>
  Claim C2. A registered user logs in with the stored email and a password the hasher
  accepts against the stored hash; the server has a secret; the token that
  \<^verbatim>\<open>jwt.sign\<close> serialises parses back to its payload and signature, is not empty and
  holds no space. Then login answers 200 with that token, and the guard, given
  \<^verbatim>\<open>Bearer <token>\<close> under the same secret before the hour is over, lets the request
  through with claims whose \<^verbatim>\<open>id\<close> is the stored user's id.
\<close>

theorem login_token_round_trip:
  assumes found: "findOne w db (Str email) = Inr (Some user)"
    and uid: "field user ''_id'' = Str uid"
    and pw: "bcrypt_compare L (Str password) (field user ''password'') = Inr True"
    and secret: "jwt_secret w = Some key" "key \<noteq> []"
    and p: "p = [(''id'', Str uid), (''iat'', Num (clock w)), (''exp'', Num (clock w + 3600))]"
    and tok: "token = jwt_encode L p (hmac L key p)"
    and codec: "jwt_decode L token = Some (p, hmac L key p)"
    and shape: "token \<noteq> []" "CHR '' '' \<notin> set token"
    and later: "jwt_secret w' = Some key" "clock w' < clock w + 3600"
  shows "status (login L w db \<lparr>lq_email = Some email, lq_password = Some password\<rparr>) = 200 \<and>
     get_prop (body (login L w db \<lparr>lq_email = Some email, lq_password = Some password\<rparr>))
       ''token'' = Str token \<and>
     authMiddleware L w' (Some (''Bearer '' @ token)) = Next p \<and>
     field p ''id'' = field user ''_id''"
proof -
  have sign: "jwt_sign L [(''id'', field user ''_id'')] (jwt_secret w) (clock w) = Inr token"
    using secret uid p tok by (simp add: jwt_sign_def Let_def)
  have l: "login L w db \<lparr>lq_email = Some email, lq_password = Some password\<rparr> =
      send 200 (Obj [(''token'', Str token), (''user'', public_view user)])"
    using found pw sign by (simp add: login_def login_try_def await_def opt_js_def)
  have v: "jwt_verify L token (jwt_secret w') (clock w') = Inr p"
    using codec later secret p
    by (simp add: jwt_verify_def check_nbf_def check_exp_def field_def)
  have "CHR '' '' \<notin> set ''Bearer''"
    by simp
  from guard_second_segment [OF this shape(2), of L w']
  have g: "authMiddleware L w' (Some (''Bearer '' @ token)) = Next p"
    using shape(1) v by simp
  show ?thesis
    using l g uid p by (simp add: send_def field_def)
qed

theorem login_token_round_trip_witness:
  "snd (register demo_libs demo_world [] demo_req) = [demo_user] \<and>
   status (login demo_libs demo_world [demo_user]
     \<lparr>lq_email = Some ''a@x.com'', lq_password = Some ''pw12345''\<rparr>) = 200 \<and>
   get_prop (body (login demo_libs demo_world [demo_user]
     \<lparr>lq_email = Some ''a@x.com'', lq_password = Some ''pw12345''\<rparr>)) ''token''
     = Str ''tok.k1'' \<and>
   authMiddleware demo_libs (demo_world\<lparr>clock := 3699\<rparr>) (Some ''Bearer tok.k1'')
     = Next demo_payload \<and>
   field demo_payload ''id'' = Str ''u1'' \<and> field demo_user ''_id'' = Str ''u1''"
proof -
  have found: "findOne demo_world [demo_user] (Str ''a@x.com'') = Inr (Some demo_user)"
    by (simp add: findOne_def demo_world_def demo_user_def field_def)
  have uid: "field demo_user ''_id'' = Str ''u1''"
    by (simp add: demo_user_def field_def)
  have pw: "bcrypt_compare demo_libs (Str ''pw12345'') (field demo_user ''password'') = Inr True"
    by (simp add: demo_libs_def demo_user_def field_def)
  have secret: "jwt_secret demo_world = Some ''k1''" "''k1'' \<noteq> []"
    by (simp_all add: demo_world_def)
  have p: "demo_payload = [(''id'', Str ''u1''), (''iat'', Num (clock demo_world)),
      (''exp'', Num (clock demo_world + 3600))]"
    by (simp add: demo_payload_def demo_world_def)
  have tok: "''tok.k1'' = jwt_encode demo_libs demo_payload (hmac demo_libs ''k1'' demo_payload)"
    by (simp add: demo_libs_def)
  have codec: "jwt_decode demo_libs ''tok.k1'' =
      Some (demo_payload, hmac demo_libs ''k1'' demo_payload)"
    by (simp add: demo_libs_def)
  have shape: "''tok.k1'' \<noteq> []" "CHR '' '' \<notin> set ''tok.k1''"
    by simp_all
  have later: "jwt_secret (demo_world\<lparr>clock := 3699\<rparr>) = Some ''k1''"
    "clock (demo_world\<lparr>clock := 3699\<rparr>) < clock demo_world + 3600"
    by (simp_all add: demo_world_def)
  from login_token_round_trip [OF found uid pw secret p tok codec shape later] uid
  show ?thesis
    by (simp add: register_demo)
qed

text \<open>
  Claim C3 on the code. The same login request, an email and no password, is answered
  with 500 and the hasher's error message when a stored user has the email, and with 400
  and \<^verbatim>\<open>Invalid email or password\<close> when none has: the answer tells whether the email is
  registered.
\<close>

theorem login_missing_password_reveals_email:
  "bcrypt_compare demo_libs (opt_js None) (field demo_user ''password'')
     = Inl ''Illegal arguments'' \<and>
   login demo_libs demo_world [demo_user] \<lparr>lq_email = Some ''a@x.com'', lq_password = None\<rparr>
     = \<lparr>status = 500, body = Obj [(''message'', Str ''Illegal arguments'')]\<rparr> \<and>
   login demo_libs demo_world [] \<lparr>lq_email = Some ''a@x.com'', lq_password = None\<rparr>
     = \<lparr>status = 400, body = Obj [(''message'', Str ''Invalid email or password'')]\<rparr>"
  by (simp add: demo_defs handler_defs)

text \<open>
  Claim C8, as the code has it. When something throws during login (the store lookup
  rejects, the hash comparison throws, or signing the token throws) the \<^verbatim>\<open>catch\<close>
  answers with status 500, not 400, and with the error's message as the message. The
  answer is 400 exactly when the lookup finds no user or the hasher rejects the password.
\<close>

theorem login_internal_failure_500:
  "((findOne w db (opt_js (lq_email req)) = Inl e \<or>
      (\<exists>user. findOne w db (opt_js (lq_email req)) = Inr (Some user) \<and>
         (bcrypt_compare L (opt_js (lq_password req)) (field user ''password'') = Inl e \<or>
          (bcrypt_compare L (opt_js (lq_password req)) (field user ''password'') = Inr True \<and>
           jwt_sign L [(''id'', field user ''_id'')] (jwt_secret w) (clock w) = Inl e))))
    \<longrightarrow> login L w db req = send 500 (message e) \<and> status (login L w db req) = 500 \<and>
        body (login L w db req) = Obj [(''message'', Str e)]) \<and>
   (status (login L w db req) = 400 \<longleftrightarrow>
      (findOne w db (opt_js (lq_email req)) = Inr None \<or>
       (\<exists>user. findOne w db (opt_js (lq_email req)) = Inr (Some user) \<and>
          bcrypt_compare L (opt_js (lq_password req)) (field user ''password'') = Inr False)))"
proof (intro conjI)
  show "(findOne w db (opt_js (lq_email req)) = Inl e \<or>
      (\<exists>user. findOne w db (opt_js (lq_email req)) = Inr (Some user) \<and>
         (bcrypt_compare L (opt_js (lq_password req)) (field user ''password'') = Inl e \<or>
          (bcrypt_compare L (opt_js (lq_password req)) (field user ''password'') = Inr True \<and>
           jwt_sign L [(''id'', field user ''_id'')] (jwt_secret w) (clock w) = Inl e))))
    \<longrightarrow> login L w db req = send 500 (message e) \<and> status (login L w db req) = 500 \<and>
        body (login L w db req) = Obj [(''message'', Str e)]"
    using login_try_Inl [of L w db req e] by (auto simp: login_def send_def message_def)
  show "status (login L w db req) = 400 \<longleftrightarrow>
      (findOne w db (opt_js (lq_email req)) = Inr None \<or>
       (\<exists>user. findOne w db (opt_js (lq_email req)) = Inr (Some user) \<and>
          bcrypt_compare L (opt_js (lq_password req)) (field user ''password'') = Inr False))"
    by (auto simp: login_def login_try_def await_def send_def Let_def
        split: sum.splits option.splits if_splits)
qed

theorem login_internal_failure_500_witness:
  "findOne (demo_world\<lparr>find_error := Some ''connection lost''\<rparr>) [demo_user]
     (opt_js (Some ''a@x.com'')) = Inl ''connection lost'' \<and>
   login demo_libs (demo_world\<lparr>find_error := Some ''connection lost''\<rparr>) [demo_user]
       \<lparr>lq_email = Some ''a@x.com'', lq_password = Some ''pw12345''\<rparr>
     = \<lparr>status = 500, body = Obj [(''message'', Str ''connection lost'')]\<rparr>"
  using login_internal_failure_500
    [of "demo_world\<lparr>find_error := Some ''connection lost''\<rparr>" "[demo_user]"
        "\<lparr>lq_email = Some ''a@x.com'', lq_password = Some ''pw12345''\<rparr>"
        "''connection lost''" demo_libs]
  by (simp add: demo_world_def findOne_def send_def message_def)

text \<open>
  Where claim C8 as written fails: a login during which the store lookup rejects, and a
  login whose hash comparison throws (no password in the request), are both answered
  with 500.
\<close>

theorem login_internal_failure_counterexample:
  "status (login demo_libs (demo_world\<lparr>find_error := Some ''connection lost''\<rparr>) [demo_user]
       \<lparr>lq_email = Some ''a@x.com'', lq_password = Some ''pw12345''\<rparr>) = 500 \<and>
   bcrypt_compare demo_libs Undefined (field demo_user ''password'') = Inl ''Illegal arguments'' \<and>
   status (login demo_libs demo_world [demo_user]
       \<lparr>lq_email = Some ''a@x.com'', lq_password = None\<rparr>) = 500"
  by (simp add: demo_defs handler_defs)

section \<open>The guard\<close>

text \<open>
  Claim C5, as the code has it. The guard lets a request through with claims \<open>c\<close> exactly
  when the header is there, its second space-separated segment is a non-empty token that
  parses to \<open>c\<close> and a signature, the signature is the digest of \<open>c\<close> under the server's
  secret, \<open>c\<close> has no \<^verbatim>\<open>nbf\<close> or one that does not lie ahead of the clock, and \<open>c\<close> has
  no \<^verbatim>\<open>exp\<close> or one that lies ahead of it. Without header or token segment the answer is
  401 with the no-token message. With a token that does not parse, whose signature is
  not the digest, whose \<^verbatim>\<open>nbf\<close> lies ahead or whose \<^verbatim>\<open>exp\<close> has passed (the signature
  may well be the right one), and in every other case in which the request is not let
  through, the answer is 401 with the invalid-token message. The handler behind the
  guard answers with the claims; the guard takes no store.
\<close>

theorem guard_authorizes_iff:
  "((authMiddleware L w header = Next c) \<longleftrightarrow>
      (\<exists>h t sg key. header = Some h \<and> index (split CHR '' '' h) 1 = Str t \<and> t \<noteq> [] \<and>
         jwt_decode L t = Some (c, sg) \<and>
         jwt_secret w = Some key \<and> key \<noteq> [] \<and> sg = hmac L key c \<and>
         (field c ''nbf'' = Undefined \<or> (\<exists>b. field c ''nbf'' = Num b \<and> b \<le> clock w)) \<and>
         (field c ''exp'' = Undefined \<or> (\<exists>e. field c ''exp'' = Num e \<and> clock w < e)))) \<and>
   ((header = None \<or> (\<exists>h. header = Some h \<and> falsy (index (split CHR '' '' h) 1))) \<longrightarrow>
      authMiddleware L w header =
        Denied (send 401 (message ''Authorization denied. No token provided.''))) \<and>
   ((\<exists>h t. header = Some h \<and> index (split CHR '' '' h) 1 = Str t \<and> t \<noteq> [] \<and>
        (jwt_decode L t = None \<or>
         (\<exists>p sg key. jwt_decode L t = Some (p, sg) \<and> jwt_secret w = Some key \<and>
            sg \<noteq> hmac L key p) \<or>
         (\<exists>p sg b. jwt_decode L t = Some (p, sg) \<and> field p ''nbf'' = Num b \<and>
            clock w < b) \<or>
         (\<exists>p sg e. jwt_decode L t = Some (p, sg) \<and> field p ''exp'' = Num e \<and>
            e \<le> clock w) \<or>
         (\<forall>d. authMiddleware L w header \<noteq> Next d))) \<longrightarrow>
      authMiddleware L w header = Denied (send 401 (message ''Token is not valid''))) \<and>
   (authMiddleware L w header = Next c \<longrightarrow> me L w header = send 200 (Obj c))"
proof (intro conjI impI)
  show "(authMiddleware L w header = Next c) \<longleftrightarrow>
      (\<exists>h t sg key. header = Some h \<and> index (split CHR '' '' h) 1 = Str t \<and> t \<noteq> [] \<and>
         jwt_decode L t = Some (c, sg) \<and>
         jwt_secret w = Some key \<and> key \<noteq> [] \<and> sg = hmac L key c \<and>
         (field c ''nbf'' = Undefined \<or> (\<exists>b. field c ''nbf'' = Num b \<and> b \<le> clock w)) \<and>
         (field c ''exp'' = Undefined \<or> (\<exists>e. field c ''exp'' = Num e \<and> clock w < e)))"
    by (rule guard_Next_full)
next
  assume "header = None \<or> (\<exists>h. header = Some h \<and> falsy (index (split CHR '' '' h) 1))"
  then show "authMiddleware L w header =
        Denied (send 401 (message ''Authorization denied. No token provided.''))"
    by (auto simp: authMiddleware_def)
next
  assume "\<exists>h t. header = Some h \<and> index (split CHR '' '' h) 1 = Str t \<and> t \<noteq> [] \<and>
        (jwt_decode L t = None \<or>
         (\<exists>p sg key. jwt_decode L t = Some (p, sg) \<and> jwt_secret w = Some key \<and>
            sg \<noteq> hmac L key p) \<or>
         (\<exists>p sg b. jwt_decode L t = Some (p, sg) \<and> field p ''nbf'' = Num b \<and>
            clock w < b) \<or>
         (\<exists>p sg e. jwt_decode L t = Some (p, sg) \<and> field p ''exp'' = Num e \<and>
            e \<le> clock w) \<or>
         (\<forall>d. authMiddleware L w header \<noteq> Next d))"
  then obtain h where "\<exists>t. header = Some h \<and> index (split CHR '' '' h) 1 = Str t \<and> t \<noteq> [] \<and>
        (jwt_decode L t = None \<or>
         (\<exists>p sg key. jwt_decode L t = Some (p, sg) \<and> jwt_secret w = Some key \<and>
            sg \<noteq> hmac L key p) \<or>
         (\<exists>p sg b. jwt_decode L t = Some (p, sg) \<and> field p ''nbf'' = Num b \<and>
            clock w < b) \<or>
         (\<exists>p sg e. jwt_decode L t = Some (p, sg) \<and> field p ''exp'' = Num e \<and>
            e \<le> clock w) \<or>
         (\<forall>d. authMiddleware L w header \<noteq> Next d))" ..
  then obtain t where all: "header = Some h \<and> index (split CHR '' '' h) 1 = Str t \<and> t \<noteq> [] \<and>
        (jwt_decode L t = None \<or>
         (\<exists>p sg key. jwt_decode L t = Some (p, sg) \<and> jwt_secret w = Some key \<and>
            sg \<noteq> hmac L key p) \<or>
         (\<exists>p sg b. jwt_decode L t = Some (p, sg) \<and> field p ''nbf'' = Num b \<and>
            clock w < b) \<or>
         (\<exists>p sg e. jwt_decode L t = Some (p, sg) \<and> field p ''exp'' = Num e \<and>
            e \<le> clock w) \<or>
         (\<forall>d. authMiddleware L w header \<noteq> Next d))" ..
  then have ht: "header = Some h" "index (split CHR '' '' h) 1 = Str t" "t \<noteq> []"
    by simp_all
  from all [THEN conjunct2, THEN conjunct2, THEN conjunct2]
  have "(jwt_decode L t = None \<or>
         (\<exists>p sg key. jwt_decode L t = Some (p, sg) \<and> jwt_secret w = Some key \<and>
            sg \<noteq> hmac L key p) \<or>
         (\<exists>p sg b. jwt_decode L t = Some (p, sg) \<and> field p ''nbf'' = Num b \<and>
            clock w < b) \<or>
         (\<exists>p sg e. jwt_decode L t = Some (p, sg) \<and> field p ''exp'' = Num e \<and>
            e \<le> clock w)) \<or>
         (\<forall>d. authMiddleware L w header \<noteq> Next d)"
    by (simp only: disj_assoc)
  then show "authMiddleware L w header = Denied (send 401 (message ''Token is not valid''))"
  proof (rule disjE)
    assume "jwt_decode L t = None \<or>
         (\<exists>p sg key. jwt_decode L t = Some (p, sg) \<and> jwt_secret w = Some key \<and>
            sg \<noteq> hmac L key p) \<or>
         (\<exists>p sg b. jwt_decode L t = Some (p, sg) \<and> field p ''nbf'' = Num b \<and>
            clock w < b) \<or>
         (\<exists>p sg e. jwt_decode L t = Some (p, sg) \<and> field p ''exp'' = Num e \<and>
            e \<le> clock w)"
    then have "\<exists>e. jwt_verify L t (jwt_secret w) (clock w) = Inl e"
      by (rule verify_Inl_cases)
    then have "(\<exists>e. jwt_verify L t (jwt_secret w) (clock w) = Inl e) \<or>
       (\<forall>d. authMiddleware L w header \<noteq> Next d)" ..
    with ht show ?thesis by (rule guard_invalid)
  next
    assume "\<forall>d. authMiddleware L w header \<noteq> Next d"
    then have "(\<exists>e. jwt_verify L t (jwt_secret w) (clock w) = Inl e) \<or>
       (\<forall>d. authMiddleware L w header \<noteq> Next d)" ..
    with ht show ?thesis by (rule guard_invalid)
  qed
next
  assume "authMiddleware L w header = Next c"
  then show "me L w header = send 200 (Obj c)"
    by (simp add: me_def)
qed

theorem guard_authorizes_iff_witness:
  "authMiddleware demo_libs demo_world (Some ''Bearer tok.k1'') = Next demo_payload \<and>
   me demo_libs demo_world (Some ''Bearer tok.k1'') = send 200 (Obj demo_payload) \<and>
   authMiddleware demo_libs demo_world None =
     Denied (send 401 (message ''Authorization denied. No token provided.'')) \<and>
   authMiddleware demo_libs demo_world (Some ''Bearer tok.k2'') =
     Denied (send 401 (message ''Token is not valid'')) \<and>
   authMiddleware demo_libs demo_world (Some ''Bearer x.y.z'') =
     Denied (send 401 (message ''Token is not valid'')) \<and>
   authMiddleware demo_libs demo_world (Some ''Bearer early.k1'') =
     Denied (send 401 (message ''Token is not valid'')) \<and>
   authMiddleware demo_libs (demo_world\<lparr>clock := 2000\<rparr>) (Some ''Bearer early.k1'') =
     Next demo_early_payload \<and>
   authMiddleware demo_libs (demo_world\<lparr>clock := 3700\<rparr>) (Some ''Bearer tok.k1'') =
     Denied (send 401 (message ''Token is not valid''))"
proof -
  have d1: "jwt_decode demo_libs ''tok.k1'' = Some (demo_payload, ''k1'')"
    and d2: "jwt_decode demo_libs ''tok.k2'' = Some (demo_payload, ''k2'')"
    and d3: "jwt_decode demo_libs ''x.y.z'' = None"
    and d4: "jwt_decode demo_libs ''early.k1'' = Some (demo_early_payload, ''k1'')"
    and mac: "hmac demo_libs ''k1'' demo_payload = ''k1''"
      "hmac demo_libs ''k1'' demo_early_payload = ''k1''"
    by (simp_all add: demo_libs_def)
  have ex: "field demo_payload ''exp'' = Num 3700" "field demo_payload ''nbf'' = Undefined"
    "field demo_early_payload ''exp'' = Num 3700" "field demo_early_payload ''nbf'' = Num 2000"
    by (simp_all add: demo_payload_def demo_early_payload_def field_def)
  have sec: "jwt_secret demo_world = Some ''k1''" "clock demo_world = 100"
    "jwt_secret (demo_world\<lparr>clock := 3700\<rparr>) = Some ''k1''"
    "clock (demo_world\<lparr>clock := 3700\<rparr>) = 3700"
    "jwt_secret (demo_world\<lparr>clock := 2000\<rparr>) = Some ''k1''"
    "clock (demo_world\<lparr>clock := 2000\<rparr>) = 2000"
    by (simp_all add: demo_world_def)
  note accept = guard_authorizes_iff [THEN conjunct1, THEN iffD2]
  note absent = guard_authorizes_iff [THEN conjunct2, THEN conjunct1, THEN mp]
  note refuse = guard_authorizes_iff [THEN conjunct2, THEN conjunct2, THEN conjunct1, THEN mp]
  note handler = guard_authorizes_iff [THEN conjunct2, THEN conjunct2, THEN conjunct2, THEN mp]
  have a: "authMiddleware demo_libs demo_world (Some ''Bearer tok.k1'') = Next demo_payload"
    by (rule accept, rule exI [of _ "''Bearer tok.k1''"], rule exI [of _ "''tok.k1''"],
        rule exI [of _ "''k1''"], rule exI [of _ "''k1''"])
       (simp add: index_def d1 mac ex sec)
  from a have m: "me demo_libs demo_world (Some ''Bearer tok.k1'') = send 200 (Obj demo_payload)"
    by (rule handler)
  have n: "authMiddleware demo_libs demo_world None =
     Denied (send 401 (message ''Authorization denied. No token provided.''))"
    by (rule absent) simp
  have s: "authMiddleware demo_libs demo_world (Some ''Bearer tok.k2'') =
     Denied (send 401 (message ''Token is not valid''))"
    by (rule refuse, rule exI [of _ "''Bearer tok.k2''"], rule exI [of _ "''tok.k2''"])
       (simp add: index_def d2 mac sec)
  have g: "authMiddleware demo_libs demo_world (Some ''Bearer x.y.z'') =
     Denied (send 401 (message ''Token is not valid''))"
    by (rule refuse, rule exI [of _ "''Bearer x.y.z''"], rule exI [of _ "''x.y.z''"])
       (simp add: index_def d3)
  have b: "authMiddleware demo_libs demo_world (Some ''Bearer early.k1'') =
     Denied (send 401 (message ''Token is not valid''))"
    by (rule refuse, rule exI [of _ "''Bearer early.k1''"], rule exI [of _ "''early.k1''"])
       (simp add: index_def d4 ex sec)
  have l: "authMiddleware demo_libs (demo_world\<lparr>clock := 2000\<rparr>) (Some ''Bearer early.k1'') =
     Next demo_early_payload"
    by (rule accept, rule exI [of _ "''Bearer early.k1''"], rule exI [of _ "''early.k1''"],
        rule exI [of _ "''k1''"], rule exI [of _ "''k1''"])
       (simp add: index_def d4 mac ex sec)
  have x: "authMiddleware demo_libs (demo_world\<lparr>clock := 3700\<rparr>) (Some ''Bearer tok.k1'') =
     Denied (send 401 (message ''Token is not valid''))"
    by (rule refuse, rule exI [of _ "''Bearer tok.k1''"], rule exI [of _ "''tok.k1''"])
       (simp add: index_def d1 ex sec)
  show ?thesis
    using a m n s g b l x by simp
qed

text \<open>
  Where claim C5 as written fails: a token is there, its signature is the digest of its
  payload under the server's secret and its expiry lies ahead, and the guard answers 401
  all the same, because the payload's not-before time lies ahead too.
\<close>

theorem guard_not_before_counterexample:
  "index (split CHR '' '' ''Bearer early.k1'') 1 = Str ''early.k1'' \<and>
   jwt_decode demo_libs ''early.k1'' =
     Some (demo_early_payload, hmac demo_libs ''k1'' demo_early_payload) \<and>
   jwt_secret demo_world = Some ''k1'' \<and>
   field demo_early_payload ''exp'' = Num 3700 \<and> clock demo_world < 3700 \<and>
   authMiddleware demo_libs demo_world (Some ''Bearer early.k1'') =
     Denied (send 401 (message ''Token is not valid''))"
  by (simp add: authMiddleware_def index_def jwt_verify_def check_nbf_def check_exp_def
      demo_libs_def demo_world_def demo_early_payload_def field_def)

text \<open>
  Claim C10. The guard never looks at the scheme word. For a header made of a first
  segment without a space, a space and the rest, the token is the rest up to its first
  space, whatever the first segment is, \<^verbatim>\<open>Bearer\<close> or not: the request is let through
  if that token verifies, and denied as the code denies any other token if not. A
  header without a space is answered with 401 and the no-token message, also when the
  header itself is a token that would verify.
\<close>

theorem guard_ignores_scheme:
  "(CHR '' '' \<notin> set scheme \<longrightarrow>
      authMiddleware L w (Some (scheme @ '' '' @ rest)) =
        (let t = takeWhile (\<lambda>x. x \<noteq> CHR '' '') rest
         in if t = []
            then Denied (send 401 (message ''Authorization denied. No token provided.''))
            else (case jwt_verify L t (jwt_secret w) (clock w) of
                    Inr decoded \<Rightarrow> Next decoded
                  | Inl e \<Rightarrow> Denied (send 401 (message ''Token is not valid''))))) \<and>
   (CHR '' '' \<notin> set h \<longrightarrow>
      authMiddleware L w (Some h) =
        Denied (send 401 (message ''Authorization denied. No token provided.'')))"
proof (intro conjI impI)
  assume "CHR '' '' \<notin> set scheme"
  from index_second [OF this, of rest]
  show "authMiddleware L w (Some (scheme @ '' '' @ rest)) =
        (let t = takeWhile (\<lambda>x. x \<noteq> CHR '' '') rest
         in if t = []
            then Denied (send 401 (message ''Authorization denied. No token provided.''))
            else (case jwt_verify L t (jwt_secret w) (clock w) of
                    Inr decoded \<Rightarrow> Next decoded
                  | Inl e \<Rightarrow> Denied (send 401 (message ''Token is not valid''))))"
    by (simp add: authMiddleware_def Let_def)
next
  assume "CHR '' '' \<notin> set h"
  from index_single [OF this]
  show "authMiddleware L w (Some h) =
        Denied (send 401 (message ''Authorization denied. No token provided.''))"
    by (simp add: authMiddleware_def)
qed

theorem guard_ignores_scheme_witness:
  "authMiddleware demo_libs demo_world (Some ''Basic tok.k1'') = Next demo_payload \<and>
   authMiddleware demo_libs demo_world (Some ''Bearer tok.k1'') = Next demo_payload \<and>
   jwt_verify demo_libs ''tok.k1'' (jwt_secret demo_world) (clock demo_world)
     = Inr demo_payload \<and>
   authMiddleware demo_libs demo_world (Some ''tok.k1'') =
     Denied (send 401 (message ''Authorization denied. No token provided.''))"
proof -
  have v: "jwt_verify demo_libs ''tok.k1'' (jwt_secret demo_world) (clock demo_world)
     = Inr demo_payload"
    by (simp add: jwt_verify_def check_nbf_def check_exp_def demo_defs field_def)
  have a: "authMiddleware demo_libs demo_world (Some ''Basic tok.k1'') = Next demo_payload"
    using guard_ignores_scheme [of "''Basic''" demo_libs demo_world "''tok.k1''"] v
    by simp
  have b: "authMiddleware demo_libs demo_world (Some ''Bearer tok.k1'') = Next demo_payload"
    using guard_ignores_scheme [of "''Bearer''" demo_libs demo_world "''tok.k1''"] v
    by simp
  have c: "authMiddleware demo_libs demo_world (Some ''tok.k1'') =
     Denied (send 401 (message ''Authorization denied. No token provided.''))"
    using guard_ignores_scheme [of _ demo_libs demo_world _ "''tok.k1''"]
    by simp
  show ?thesis
    using v a b c by simp
qed

end
